theory Spec2Isabelle
  imports Main "HOL-Library.Multiset"
begin

section \<open>Command line parser of the inference server (src/command_line_parser.cc)\<close>

text \<open>
  The development follows the translation unit top-down: the string and number helpers of
  the C++ standard library that the parser calls, the typed value parsers
  (\<open>ParseOption<T>\<close>), the compound parsers, the port collision check, the option
  scanner and \<open>TritonParser::Parse\<close>. All definitions come first, the theorems after
  them.

  The file is modelled with every optional serving surface compiled in
  (\<open>TRITON_ENABLE_LOGGING\<close>, \<open>_HTTP\<close>, \<open>_GRPC\<close>, \<open>_SAGEMAKER\<close>, \<open>_VERTEX_AI\<close>,
  \<open>_METRICS\<close>, \<open>_TRACING\<close>).
\<close>

subsection \<open>Exceptions\<close>

text \<open>
  Every failure of the parser is a thrown \<open>ParseException\<close> carrying a message. The
  constructors below are the kinds of message; each keeps the values the message
  interpolates and abbreviates its fixed wording to the option or value kind it names.
  \<^item> \<open>Usage\<close>: \<open>throw ParseException()\<close>, no message (help requested, or the scanner
    returned \<open>'?'\<close>);
  \<^item> \<open>FormatError what arg\<close>: a value \<open>arg\<close> that is not of the shape of \<open>what\<close>;
  \<^item> \<open>UnexpectedArgument tok\<close>: \<open>"Unexpected argument: " + tok\<close>;
  \<^item> \<open>ConflictingOptions f g\<close>: "Incompatible flags f and g both provided";
  \<^item> \<open>PortRangeViolation svc port lo hi\<close>: "The server cannot listen to svc requests at
    port port, allowed port range is [lo, hi]";
  \<^item> \<open>PortConflict svc1 svc2 addr port\<close>: "The server cannot listen to svc1 requests and
    svc2 requests at the same address and port addr:port".
  The last two constructors are not \<open>ParseException\<close>s: they are the exceptions of the
  standard library's numeric conversions and of \<open>std::string::substr\<close>, which the parser
  lets through.
\<close>

datatype parse_error =
    Usage
  | FormatError string string
  | UnexpectedArgument string
  | ConflictingOptions string string
  | PortRangeViolation string int int int
  | PortConflict string string string int
  | std_invalid_argument
  | std_out_of_range

text \<open>Sequencing of two computations that may throw: the first exception wins.\<close>

definition bindE :: "parse_error + 'a \<Rightarrow> ('a \<Rightarrow> parse_error + 'b) \<Rightarrow> parse_error + 'b" where
  "bindE m f = (case m of Inl e \<Rightarrow> Inl e | Inr x \<Rightarrow> f x)"

subsection \<open>Standard library: strings\<close>

text \<open>
  \<open>std::string::npos\<close> is the largest \<open>size_t\<close>. \<open>find\<close> returns the first position
  at or after \<open>pos\<close> where the pattern starts, or \<open>npos\<close>. The parsers store some of
  these positions in an \<open>int\<close> and convert back: \<open>to_int\<close> is the conversion of a
  \<open>size_t\<close> to a 32-bit \<open>int\<close> (modular, so \<open>npos\<close> becomes \<open>-1\<close>), \<open>to_size\<close>
  the conversion of an \<open>int\<close> to \<open>size_t\<close>, \<open>size_add\<close> addition in \<open>size_t\<close>.
\<close>

definition npos :: nat where
  "npos = 2 ^ 64 - 1"

fun find_at :: "string \<Rightarrow> string \<Rightarrow> nat \<Rightarrow> nat option" where
  "find_at pat [] k = (if pat = [] then Some k else None)"
| "find_at pat (x # xs) k =
     (if take (length pat) (x # xs) = pat then Some k else find_at pat xs (Suc k))"

definition str_find :: "string \<Rightarrow> string \<Rightarrow> nat \<Rightarrow> nat" where
  "str_find s pat pos =
     (if length s < pos then npos
      else case find_at pat (drop pos s) pos of Some i \<Rightarrow> i | None \<Rightarrow> npos)"

definition to_int :: "nat \<Rightarrow> int" where
  "to_int n = (let m = n mod 2 ^ 32 in if m < 2 ^ 31 then int m else int m - 2 ^ 32)"

definition to_size :: "int \<Rightarrow> nat" where
  "to_size i = nat (i mod 2 ^ 64)"

definition size_add :: "nat \<Rightarrow> nat \<Rightarrow> nat" where
  "size_add a b = (a + b) mod 2 ^ 64"

definition size_sub :: "nat \<Rightarrow> nat \<Rightarrow> nat" where
  "size_sub a b = (2 ^ 64 + a - b) mod 2 ^ 64"

text \<open>
  \<open>s.substr(pos, n)\<close> throws \<open>std::out_of_range\<close> when \<open>pos > s.size()\<close> and otherwise
  returns at most \<open>n\<close> characters from \<open>pos\<close>; \<open>s.substr(pos)\<close> returns the rest.
\<close>

definition substr :: "string \<Rightarrow> nat \<Rightarrow> nat \<Rightarrow> parse_error + string" where
  "substr s pos n = (if length s < pos then Inl std_out_of_range else Inr (take n (drop pos s)))"

definition substr_from :: "string \<Rightarrow> nat \<Rightarrow> parse_error + string" where
  "substr_from s pos = (if length s < pos then Inl std_out_of_range else Inr (drop pos s))"

text \<open>\<open>std::tolower\<close> in the "C" locale: the 26 capital letters, nothing else.\<close>

definition tolower :: "char \<Rightarrow> char" where
  "tolower c =
     (case map_of (zip ''ABCDEFGHIJKLMNOPQRSTUVWXYZ'' ''abcdefghijklmnopqrstuvwxyz'') c of
        Some l \<Rightarrow> l
      | None \<Rightarrow> c)"

definition lowercase :: "string \<Rightarrow> string" where
  "lowercase s = map tolower s"

subsection \<open>Standard library: numeric conversions\<close>

text \<open>
  \<open>std::stoi(str)\<close>, \<open>std::stoll(str)\<close> and \<open>std::stoull(str)\<close> are called with their
  default arguments (\<open>pos = nullptr\<close>, \<open>base = 10\<close>). By the C++ standard they call
  \<open>strtol\<close>, \<open>strtoll\<close>, \<open>strtoull\<close>: leading white space is skipped, an optional
  sign is read, then the longest run of decimal digits; what follows the digits is left
  unread. They throw \<open>std::invalid_argument\<close> when there is no digit to convert and
  \<open>std::out_of_range\<close> when the value does not fit the result type. With
  \<open>pos = nullptr\<close> the number of characters read is not reported to the caller.
  \<open>strtoull\<close> negates in the unsigned type when the sign is \<open>-\<close>.
\<close>

definition isspace :: "char \<Rightarrow> bool" where
  "isspace c = (c \<in> set [CHR '' '', CHR 0x09, CHR 0x0A, CHR 0x0B, CHR 0x0C, CHR 0x0D])"

definition isdigit :: "char \<Rightarrow> bool" where
  "isdigit c = (c \<in> set ''0123456789'')"

definition digit_value :: "char \<Rightarrow> nat" where
  "digit_value c = of_char c - 48"

definition decimal :: "string \<Rightarrow> nat" where
  "decimal ds = foldl (\<lambda>n c. 10 * n + digit_value c) 0 ds"

definition split_sign :: "string \<Rightarrow> bool \<times> string" where
  "split_sign s =
     (case s of
        [] \<Rightarrow> (False, [])
      | c # r \<Rightarrow> if c = CHR ''-'' then (True, r) else if c = CHR ''+'' then (False, r) else (False, s))"

definition strto :: "string \<Rightarrow> (bool \<times> nat) option" where
  "strto s =
     (let (neg, r) = split_sign (dropWhile isspace s);
          ds = takeWhile isdigit r
      in if ds = [] then None else Some (neg, decimal ds))"

definition stoi :: "string \<Rightarrow> parse_error + int" where
  "stoi s =
     (case strto s of
        None \<Rightarrow> Inl std_invalid_argument
      | Some (neg, m) \<Rightarrow>
          let v = (if neg then - int m else int m)
          in if v < - (2 ^ 31) \<or> 2 ^ 31 - 1 < v then Inl std_out_of_range else Inr v)"

definition stoll :: "string \<Rightarrow> parse_error + int" where
  "stoll s =
     (case strto s of
        None \<Rightarrow> Inl std_invalid_argument
      | Some (neg, m) \<Rightarrow>
          let v = (if neg then - int m else int m)
          in if v < - (2 ^ 63) \<or> 2 ^ 63 - 1 < v then Inl std_out_of_range else Inr v)"

definition stoull :: "string \<Rightarrow> parse_error + nat" where
  "stoull s =
     (case strto s of
        None \<Rightarrow> Inl std_invalid_argument
      | Some (neg, m) \<Rightarrow>
          if 2 ^ 64 - 1 < m then Inl std_out_of_range
          else Inr (if neg then (2 ^ 64 - m) mod 2 ^ 64 else m))"

subsection \<open>Typed value parsers: \<open>ParseOption<T>\<close>\<close>

text \<open>
  The four numeric specialisations return what the standard conversion returns.
  \<open>std::stod\<close> computes a floating-point value; it is a parameter \<open>stod\<close> of the
  model, and \<open>'d\<close> stands for the type \<open>double\<close>.
\<close>

definition ParseOption_int :: "string \<Rightarrow> parse_error + int" where
  "ParseOption_int arg = stoi arg"

definition ParseOption_uint64 :: "string \<Rightarrow> parse_error + nat" where
  "ParseOption_uint64 arg = stoull arg"

definition ParseOption_int64 :: "string \<Rightarrow> parse_error + int" where
  "ParseOption_int64 arg = stoll arg"

definition ParseOption_double :: "(string \<Rightarrow> parse_error + 'd) \<Rightarrow> string \<Rightarrow> parse_error + 'd" where
  "ParseOption_double stod arg = stod arg"

definition ParseOption_bool :: "string \<Rightarrow> parse_error + bool" where
  "ParseOption_bool arg =
     (let larg = lowercase arg
      in if larg = ''true'' \<or> larg = ''on'' \<or> larg = ''1'' then Inr True
         else if larg = ''false'' \<or> larg = ''off'' \<or> larg = ''0'' then Inr False
         else Inl (FormatError ''bool option'' arg))"

definition ParseIntBoolOption :: "string \<Rightarrow> parse_error + int" where
  "ParseIntBoolOption arg0 =
     (let arg = lowercase arg0
      in if arg = ''true'' then Inr 1
         else if arg = ''false'' then Inr 0
         else ParseOption_int arg)"

text \<open>
  \<open>ParsePairOption<T1, T2>(arg, delim_str)\<close>; the two \<open>ParseOption\<close> instances are the
  arguments \<open>p1\<close> and \<open>p2\<close>. The position found is stored in an \<open>int\<close>. The two halves
  are converted in the order of the braced initialiser list, first then second.
\<close>

definition ParsePairOption ::
  "(string \<Rightarrow> parse_error + 'a) \<Rightarrow> (string \<Rightarrow> parse_error + 'b) \<Rightarrow> string \<Rightarrow> string \<Rightarrow>
     parse_error + ('a \<times> 'b)" where
  "ParsePairOption p1 p2 arg delim_str =
     (let delim = to_int (str_find arg delim_str 0)
      in if delim < 0 then Inl (FormatError ''pair option'' arg)
         else
           bindE (substr arg 0 (to_size delim)) (\<lambda>first_string.
           bindE (substr_from arg (size_add (to_size delim) (length delim_str))) (\<lambda>second_string.
           bindE (p1 first_string) (\<lambda>a.
           bindE (p2 second_string) (\<lambda>b.
           Inr (a, b))))))"

subsection \<open>Compound parsers\<close>

text \<open>
  \<open>TritonParser::ParseCacheConfigOption\<close>. Both positions are stored in \<open>int\<close>s; the
  second search starts at \<open>delim_name + 1\<close>, converted back to \<open>size_t\<close>.
\<close>

definition ParseCacheConfigOption :: "string \<Rightarrow> parse_error + (string \<times> string \<times> string)" where
  "ParseCacheConfigOption arg =
     (let delim_name = to_int (str_find arg '','' 0);
          delim_setting = to_int (str_find arg ''='' (to_size (delim_name + 1)))
      in if delim_name > 0 then
           bindE (substr arg 0 (to_size delim_name)) (\<lambda>name_string.
           if delim_setting < 0 then Inl (FormatError ''--cache-config'' arg)
           else
             bindE (substr arg (to_size (delim_name + 1))
                      (to_size (delim_setting - delim_name - 1))) (\<lambda>setting_string.
             bindE (substr_from arg (to_size (delim_setting + 1))) (\<lambda>value_string.
             if setting_string = [] \<or> value_string = []
             then Inl (FormatError ''--cache-config'' arg)
             else Inr (name_string, setting_string, value_string))))
         else Inl (FormatError ''--cache-config: no cache specified'' arg))"

text \<open>
  \<open>TritonParser::ParseBackendConfigOption\<close>. Its first test has three branches: a
  name before the comma, a comma at position 0 (thrown), and no comma, which the source
  comments as "else global backend config" and lets through with an empty name.
\<close>

definition ParseBackendConfigOption :: "string \<Rightarrow> parse_error + (string \<times> string \<times> string)" where
  "ParseBackendConfigOption arg =
     (let delim_name = to_int (str_find arg '','' 0);
          delim_setting = to_int (str_find arg ''='' (to_size (delim_name + 1)))
      in bindE (if delim_name > 0 then substr arg 0 (to_size delim_name)
                else if delim_name = 0
                then Inl (FormatError ''--backend-config: no backend specified'' arg)
                else Inr []) (\<lambda>name_string.
         if delim_setting < 0 then Inl (FormatError ''--backend-config'' arg)
         else
           bindE (substr arg (to_size (delim_name + 1))
                    (to_size (delim_setting - delim_name - 1))) (\<lambda>setting_string.
           bindE (substr_from arg (to_size (delim_setting + 1))) (\<lambda>value_string.
           if setting_string = [] \<or> value_string = []
           then Inl (FormatError ''--backend-config'' arg)
           else Inr (name_string, setting_string, value_string)))))"

text \<open>\<open>TritonParser::ParseHostPolicyOption\<close>.\<close>

definition ParseHostPolicyOption :: "string \<Rightarrow> parse_error + (string \<times> string \<times> string)" where
  "ParseHostPolicyOption arg =
     (let delim_name = to_int (str_find arg '','' 0);
          delim_setting = to_int (str_find arg ''='' (to_size (delim_name + 1)))
      in if delim_name < 0 \<or> delim_setting < 0 then Inl (FormatError ''--host-policy'' arg)
         else
           bindE (substr arg 0 (to_size delim_name)) (\<lambda>name_string.
           bindE (substr arg (to_size (delim_name + 1))
                    (to_size (delim_setting - delim_name - 1))) (\<lambda>setting_string.
           bindE (substr_from arg (to_size (delim_setting + 1))) (\<lambda>value_string.
           if name_string = [] \<or> setting_string = [] \<or> value_string = []
           then Inl (FormatError ''--host-policy'' arg)
           else Inr (name_string, setting_string, value_string)))))"

text \<open>
  \<open>TritonParser::ParseRateLimiterResourceOption\<close>. Here the positions stay
  \<open>size_t\<close>: \<open>delim_first + 1\<close> wraps to 0 when nothing was found.
\<close>

definition ParseRateLimiterResourceOption :: "string \<Rightarrow> parse_error + (string \<times> int \<times> int)" where
  "ParseRateLimiterResourceOption arg =
     (let delim_first = str_find arg '':'' 0;
          delim_second = str_find arg '':'' (size_add delim_first 1)
      in if delim_second \<noteq> npos then
           (let delim_third = str_find arg '':'' (size_add delim_second 1)
            in if delim_third \<noteq> npos then Inl (FormatError ''--rate-limit-resource'' arg)
               else
                 bindE (substr arg 0 delim_first) (\<lambda>name_string.
                 bindE (substr arg (size_add delim_first 1)
                          (size_sub (size_sub delim_second delim_first) 1)) (\<lambda>count_string.
                 bindE (ParseOption_int count_string) (\<lambda>count.
                 bindE (substr_from arg (size_add delim_second 1)) (\<lambda>device_string.
                 bindE (ParseOption_int device_string) (\<lambda>device_id.
                 Inr (name_string, count, device_id)))))))
         else if delim_first \<noteq> npos then
           bindE (substr arg 0 delim_first) (\<lambda>name_string.
           bindE (substr_from arg (size_add delim_first 1)) (\<lambda>count_string.
           bindE (ParseOption_int count_string) (\<lambda>count.
           Inr (name_string, count, - 1))))
         else Inl (FormatError ''--rate-limit-resource'' arg))"

subsection \<open>Port collision check\<close>

text \<open>
  A port entry is the tuple the check builds per enabled service:
  service name, address, port, whether the service sets a port range for the other
  services, and the bounds of that range. \<open>get0\<close> to \<open>get5\<close> are \<open>std::get<k>\<close>.
  Ports and bounds are \<open>int32_t\<close> values that the check only compares, so they are
  integers here.
\<close>

type_synonym port_entry = "string \<times> string \<times> int \<times> bool \<times> int \<times> int"

fun get0 :: "port_entry \<Rightarrow> string" where "get0 (n, a, p, r, lo, hi) = n"
fun get1 :: "port_entry \<Rightarrow> string" where "get1 (n, a, p, r, lo, hi) = a"
fun get2 :: "port_entry \<Rightarrow> int" where "get2 (n, a, p, r, lo, hi) = p"
fun get3 :: "port_entry \<Rightarrow> bool" where "get3 (n, a, p, r, lo, hi) = r"
fun get4 :: "port_entry \<Rightarrow> int" where "get4 (n, a, p, r, lo, hi) = lo"
fun get5 :: "port_entry \<Rightarrow> int" where "get5 (n, a, p, r, lo, hi) = hi"

text \<open>
  The body of the inner loop, after the test \<open>comparing_it == curr_it\<close>: \<open>None\<close> when
  the iteration falls through (or \<open>continue\<close>s), the exception otherwise.
\<close>

definition compare_ports :: "port_entry \<Rightarrow> port_entry \<Rightarrow> parse_error option" where
  "compare_ports curr_it comparing_it =
     (if get1 curr_it \<noteq> get1 comparing_it then None
      else if get3 curr_it \<and> (get2 comparing_it < get4 curr_it \<or> get2 comparing_it > get5 curr_it)
      then Some (PortRangeViolation (get0 comparing_it) (get2 comparing_it) (get4 curr_it) (get5 curr_it))
      else if get2 curr_it = get2 comparing_it
      then Some (PortConflict (get0 curr_it) (get0 comparing_it) (get1 curr_it) (get2 curr_it))
      else None)"

text \<open>
  The two loops. Iterators are positions in \<open>ports\<close>; the inner loop runs over the
  positions from its start to \<open>ports.end()\<close>, the outer one over all positions. The
  start of the inner loop is \<open>ports.begin()\<close> when the current service sets a range and
  \<open>curr_it + 1\<close> otherwise.
\<close>

fun inner_loop :: "port_entry list \<Rightarrow> nat \<Rightarrow> nat list \<Rightarrow> parse_error + unit" where
  "inner_loop ports curr_it [] = Inr ()"
| "inner_loop ports curr_it (comparing_it # rest) =
     (if comparing_it = curr_it then inner_loop ports curr_it rest
      else case compare_ports (ports ! curr_it) (ports ! comparing_it) of
             Some e \<Rightarrow> Inl e
           | None \<Rightarrow> inner_loop ports curr_it rest)"

definition comparing_from :: "port_entry list \<Rightarrow> nat \<Rightarrow> nat list" where
  "comparing_from ports curr_it =
     (if get3 (ports ! curr_it) then [0..<length ports] else [Suc curr_it..<length ports])"

fun outer_loop :: "port_entry list \<Rightarrow> nat list \<Rightarrow> parse_error + unit" where
  "outer_loop ports [] = Inr ()"
| "outer_loop ports (curr_it # rest) =
     (case inner_loop ports curr_it (comparing_from ports curr_it) of
        Inl e \<Rightarrow> Inl e
      | Inr u \<Rightarrow> outer_loop ports rest)"

definition check_ports :: "port_entry list \<Rightarrow> parse_error + unit" where
  "check_ports ports = outer_loop ports [0..<length ports]"

text \<open>
  The same loops, recording each pair of positions \<open>(curr_it, comparing_it)\<close> that reaches
  \<open>compare_ports\<close>, in order, up to and including the one that throws.
\<close>

fun inner_trace :: "port_entry list \<Rightarrow> nat \<Rightarrow> nat list \<Rightarrow> (nat \<times> nat) list \<times> parse_error option" where
  "inner_trace ports curr_it [] = ([], None)"
| "inner_trace ports curr_it (comparing_it # rest) =
     (if comparing_it = curr_it then inner_trace ports curr_it rest
      else case compare_ports (ports ! curr_it) (ports ! comparing_it) of
             Some e \<Rightarrow> ([(curr_it, comparing_it)], Some e)
           | None \<Rightarrow> (case inner_trace ports curr_it rest of (t, r) \<Rightarrow> ((curr_it, comparing_it) # t, r)))"

fun outer_trace :: "port_entry list \<Rightarrow> nat list \<Rightarrow> (nat \<times> nat) list \<times> parse_error option" where
  "outer_trace ports [] = ([], None)"
| "outer_trace ports (curr_it # rest) =
     (case inner_trace ports curr_it (comparing_from ports curr_it) of
        (t, Some e) \<Rightarrow> (t, Some e)
      | (t, None) \<Rightarrow> (case outer_trace ports rest of (t', r) \<Rightarrow> (t @ t', r)))"

definition check_trace :: "port_entry list \<Rightarrow> (nat \<times> nat) list \<times> parse_error option" where
  "check_trace ports = outer_trace ports [0..<length ports]"

definition times_compared :: "port_entry list \<Rightarrow> nat \<Rightarrow> nat \<Rightarrow> nat" where
  "times_compared ports i j =
     count_list (fst (check_trace ports)) (i, j) + count_list (fst (check_trace ports)) (j, i)"

text \<open>
  The pairs of positions that the two loops visit, in order, when nothing is thrown: for
  each position \<open>i\<close>, every position of its inner loop other than \<open>i\<close> itself.
\<close>

definition inner_schedule :: "nat \<Rightarrow> nat list \<Rightarrow> (nat \<times> nat) list" where
  "inner_schedule i js = map (Pair i) (filter (\<lambda>j. j \<noteq> i) js)"

definition schedule :: "port_entry list \<Rightarrow> (nat \<times> nat) list" where
  "schedule ports =
     concat (map (\<lambda>i. inner_schedule i (comparing_from ports i)) [0..<length ports])"

subsection \<open>Option identifiers and the option registry\<close>

text \<open>
  \<open>enum TritonOptionId\<close>: \<open>OPTION_HELP = 1000\<close> and the following enumerators count
  up from it. The scanner returns them as \<open>int\<close>, together with \<open>-1\<close> and \<open>'?'\<close>, so
  they are integer constants here as well.
\<close>

definition OPTION_HELP :: int where "OPTION_HELP = 1000"
definition OPTION_LOG_VERBOSE :: int where "OPTION_LOG_VERBOSE = 1001"
definition OPTION_LOG_INFO :: int where "OPTION_LOG_INFO = 1002"
definition OPTION_LOG_WARNING :: int where "OPTION_LOG_WARNING = 1003"
definition OPTION_LOG_ERROR :: int where "OPTION_LOG_ERROR = 1004"
definition OPTION_LOG_FORMAT :: int where "OPTION_LOG_FORMAT = 1005"
definition OPTION_LOG_FILE :: int where "OPTION_LOG_FILE = 1006"
definition OPTION_ID :: int where "OPTION_ID = 1007"
definition OPTION_MODEL_REPOSITORY :: int where "OPTION_MODEL_REPOSITORY = 1008"
definition OPTION_EXIT_ON_ERROR :: int where "OPTION_EXIT_ON_ERROR = 1009"
definition OPTION_DISABLE_AUTO_COMPLETE_CONFIG :: int where "OPTION_DISABLE_AUTO_COMPLETE_CONFIG = 1010"
definition OPTION_STRICT_MODEL_CONFIG :: int where "OPTION_STRICT_MODEL_CONFIG = 1011"
definition OPTION_STRICT_READINESS :: int where "OPTION_STRICT_READINESS = 1012"
definition OPTION_ALLOW_HTTP :: int where "OPTION_ALLOW_HTTP = 1013"
definition OPTION_HTTP_PORT :: int where "OPTION_HTTP_PORT = 1014"
definition OPTION_REUSE_HTTP_PORT :: int where "OPTION_REUSE_HTTP_PORT = 1015"
definition OPTION_HTTP_ADDRESS :: int where "OPTION_HTTP_ADDRESS = 1016"
definition OPTION_HTTP_THREAD_COUNT :: int where "OPTION_HTTP_THREAD_COUNT = 1017"
definition OPTION_ALLOW_GRPC :: int where "OPTION_ALLOW_GRPC = 1018"
definition OPTION_GRPC_PORT :: int where "OPTION_GRPC_PORT = 1019"
definition OPTION_REUSE_GRPC_PORT :: int where "OPTION_REUSE_GRPC_PORT = 1020"
definition OPTION_GRPC_ADDRESS :: int where "OPTION_GRPC_ADDRESS = 1021"
definition OPTION_GRPC_INFER_ALLOCATION_POOL_SIZE :: int where "OPTION_GRPC_INFER_ALLOCATION_POOL_SIZE = 1022"
definition OPTION_GRPC_USE_SSL :: int where "OPTION_GRPC_USE_SSL = 1023"
definition OPTION_GRPC_USE_SSL_MUTUAL :: int where "OPTION_GRPC_USE_SSL_MUTUAL = 1024"
definition OPTION_GRPC_SERVER_CERT :: int where "OPTION_GRPC_SERVER_CERT = 1025"
definition OPTION_GRPC_SERVER_KEY :: int where "OPTION_GRPC_SERVER_KEY = 1026"
definition OPTION_GRPC_ROOT_CERT :: int where "OPTION_GRPC_ROOT_CERT = 1027"
definition OPTION_GRPC_RESPONSE_COMPRESSION_LEVEL :: int where "OPTION_GRPC_RESPONSE_COMPRESSION_LEVEL = 1028"
definition OPTION_GRPC_ARG_KEEPALIVE_TIME_MS :: int where "OPTION_GRPC_ARG_KEEPALIVE_TIME_MS = 1029"
definition OPTION_GRPC_ARG_KEEPALIVE_TIMEOUT_MS :: int where "OPTION_GRPC_ARG_KEEPALIVE_TIMEOUT_MS = 1030"
definition OPTION_GRPC_ARG_KEEPALIVE_PERMIT_WITHOUT_CALLS :: int where "OPTION_GRPC_ARG_KEEPALIVE_PERMIT_WITHOUT_CALLS = 1031"
definition OPTION_GRPC_ARG_HTTP2_MAX_PINGS_WITHOUT_DATA :: int where "OPTION_GRPC_ARG_HTTP2_MAX_PINGS_WITHOUT_DATA = 1032"
definition OPTION_GRPC_ARG_HTTP2_MIN_RECV_PING_INTERVAL_WITHOUT_DATA_MS :: int where "OPTION_GRPC_ARG_HTTP2_MIN_RECV_PING_INTERVAL_WITHOUT_DATA_MS = 1033"
definition OPTION_GRPC_ARG_HTTP2_MAX_PING_STRIKES :: int where "OPTION_GRPC_ARG_HTTP2_MAX_PING_STRIKES = 1034"
definition OPTION_ALLOW_SAGEMAKER :: int where "OPTION_ALLOW_SAGEMAKER = 1035"
definition OPTION_SAGEMAKER_PORT :: int where "OPTION_SAGEMAKER_PORT = 1036"
definition OPTION_SAGEMAKER_SAFE_PORT_RANGE :: int where "OPTION_SAGEMAKER_SAFE_PORT_RANGE = 1037"
definition OPTION_SAGEMAKER_THREAD_COUNT :: int where "OPTION_SAGEMAKER_THREAD_COUNT = 1038"
definition OPTION_ALLOW_VERTEX_AI :: int where "OPTION_ALLOW_VERTEX_AI = 1039"
definition OPTION_VERTEX_AI_PORT :: int where "OPTION_VERTEX_AI_PORT = 1040"
definition OPTION_VERTEX_AI_THREAD_COUNT :: int where "OPTION_VERTEX_AI_THREAD_COUNT = 1041"
definition OPTION_VERTEX_AI_DEFAULT_MODEL :: int where "OPTION_VERTEX_AI_DEFAULT_MODEL = 1042"
definition OPTION_ALLOW_METRICS :: int where "OPTION_ALLOW_METRICS = 1043"
definition OPTION_ALLOW_GPU_METRICS :: int where "OPTION_ALLOW_GPU_METRICS = 1044"
definition OPTION_ALLOW_CPU_METRICS :: int where "OPTION_ALLOW_CPU_METRICS = 1045"
definition OPTION_METRICS_PORT :: int where "OPTION_METRICS_PORT = 1046"
definition OPTION_METRICS_INTERVAL_MS :: int where "OPTION_METRICS_INTERVAL_MS = 1047"
definition OPTION_TRACE_FILEPATH :: int where "OPTION_TRACE_FILEPATH = 1048"
definition OPTION_TRACE_LEVEL :: int where "OPTION_TRACE_LEVEL = 1049"
definition OPTION_TRACE_RATE :: int where "OPTION_TRACE_RATE = 1050"
definition OPTION_TRACE_COUNT :: int where "OPTION_TRACE_COUNT = 1051"
definition OPTION_TRACE_LOG_FREQUENCY :: int where "OPTION_TRACE_LOG_FREQUENCY = 1052"
definition OPTION_MODEL_CONTROL_MODE :: int where "OPTION_MODEL_CONTROL_MODE = 1053"
definition OPTION_POLL_REPO_SECS :: int where "OPTION_POLL_REPO_SECS = 1054"
definition OPTION_STARTUP_MODEL :: int where "OPTION_STARTUP_MODEL = 1055"
definition OPTION_RATE_LIMIT :: int where "OPTION_RATE_LIMIT = 1056"
definition OPTION_RATE_LIMIT_RESOURCE :: int where "OPTION_RATE_LIMIT_RESOURCE = 1057"
definition OPTION_PINNED_MEMORY_POOL_BYTE_SIZE :: int where "OPTION_PINNED_MEMORY_POOL_BYTE_SIZE = 1058"
definition OPTION_CUDA_MEMORY_POOL_BYTE_SIZE :: int where "OPTION_CUDA_MEMORY_POOL_BYTE_SIZE = 1059"
definition OPTION_RESPONSE_CACHE_BYTE_SIZE :: int where "OPTION_RESPONSE_CACHE_BYTE_SIZE = 1060"
definition OPTION_CACHE_CONFIG :: int where "OPTION_CACHE_CONFIG = 1061"
definition OPTION_CACHE_DIR :: int where "OPTION_CACHE_DIR = 1062"
definition OPTION_MIN_SUPPORTED_COMPUTE_CAPABILITY :: int where "OPTION_MIN_SUPPORTED_COMPUTE_CAPABILITY = 1063"
definition OPTION_EXIT_TIMEOUT_SECS :: int where "OPTION_EXIT_TIMEOUT_SECS = 1064"
definition OPTION_BACKEND_DIR :: int where "OPTION_BACKEND_DIR = 1065"
definition OPTION_REPOAGENT_DIR :: int where "OPTION_REPOAGENT_DIR = 1066"
definition OPTION_BUFFER_MANAGER_THREAD_COUNT :: int where "OPTION_BUFFER_MANAGER_THREAD_COUNT = 1067"
definition OPTION_MODEL_LOAD_THREAD_COUNT :: int where "OPTION_MODEL_LOAD_THREAD_COUNT = 1068"
definition OPTION_BACKEND_CONFIG :: int where "OPTION_BACKEND_CONFIG = 1069"
definition OPTION_HOST_POLICY :: int where "OPTION_HOST_POLICY = 1070"
definition OPTION_MODEL_LOAD_GPU_LIMIT :: int where "OPTION_MODEL_LOAD_GPU_LIMIT = 1071"
definition OPTION_MODEL_NAMESPACING :: int where "OPTION_MODEL_NAMESPACING = 1072"

lemmas option_ids =
  OPTION_HELP_def OPTION_LOG_VERBOSE_def OPTION_LOG_INFO_def OPTION_LOG_WARNING_def
  OPTION_LOG_ERROR_def OPTION_LOG_FORMAT_def OPTION_LOG_FILE_def OPTION_ID_def
  OPTION_MODEL_REPOSITORY_def OPTION_EXIT_ON_ERROR_def OPTION_DISABLE_AUTO_COMPLETE_CONFIG_def
  OPTION_STRICT_MODEL_CONFIG_def OPTION_STRICT_READINESS_def OPTION_ALLOW_HTTP_def
  OPTION_HTTP_PORT_def OPTION_REUSE_HTTP_PORT_def OPTION_HTTP_ADDRESS_def
  OPTION_HTTP_THREAD_COUNT_def OPTION_ALLOW_GRPC_def OPTION_GRPC_PORT_def
  OPTION_REUSE_GRPC_PORT_def OPTION_GRPC_ADDRESS_def OPTION_GRPC_INFER_ALLOCATION_POOL_SIZE_def
  OPTION_GRPC_USE_SSL_def OPTION_GRPC_USE_SSL_MUTUAL_def OPTION_GRPC_SERVER_CERT_def
  OPTION_GRPC_SERVER_KEY_def OPTION_GRPC_ROOT_CERT_def
  OPTION_GRPC_RESPONSE_COMPRESSION_LEVEL_def OPTION_GRPC_ARG_KEEPALIVE_TIME_MS_def
  OPTION_GRPC_ARG_KEEPALIVE_TIMEOUT_MS_def OPTION_GRPC_ARG_KEEPALIVE_PERMIT_WITHOUT_CALLS_def
  OPTION_GRPC_ARG_HTTP2_MAX_PINGS_WITHOUT_DATA_def
  OPTION_GRPC_ARG_HTTP2_MIN_RECV_PING_INTERVAL_WITHOUT_DATA_MS_def
  OPTION_GRPC_ARG_HTTP2_MAX_PING_STRIKES_def OPTION_ALLOW_SAGEMAKER_def
  OPTION_SAGEMAKER_PORT_def OPTION_SAGEMAKER_SAFE_PORT_RANGE_def
  OPTION_SAGEMAKER_THREAD_COUNT_def OPTION_ALLOW_VERTEX_AI_def OPTION_VERTEX_AI_PORT_def
  OPTION_VERTEX_AI_THREAD_COUNT_def OPTION_VERTEX_AI_DEFAULT_MODEL_def OPTION_ALLOW_METRICS_def
  OPTION_ALLOW_GPU_METRICS_def OPTION_ALLOW_CPU_METRICS_def OPTION_METRICS_PORT_def
  OPTION_METRICS_INTERVAL_MS_def OPTION_TRACE_FILEPATH_def OPTION_TRACE_LEVEL_def
  OPTION_TRACE_RATE_def OPTION_TRACE_COUNT_def OPTION_TRACE_LOG_FREQUENCY_def
  OPTION_MODEL_CONTROL_MODE_def OPTION_POLL_REPO_SECS_def OPTION_STARTUP_MODEL_def
  OPTION_RATE_LIMIT_def OPTION_RATE_LIMIT_RESOURCE_def OPTION_PINNED_MEMORY_POOL_BYTE_SIZE_def
  OPTION_CUDA_MEMORY_POOL_BYTE_SIZE_def OPTION_RESPONSE_CACHE_BYTE_SIZE_def
  OPTION_CACHE_CONFIG_def OPTION_CACHE_DIR_def OPTION_MIN_SUPPORTED_COMPUTE_CAPABILITY_def
  OPTION_EXIT_TIMEOUT_SECS_def OPTION_BACKEND_DIR_def OPTION_REPOAGENT_DIR_def
  OPTION_BUFFER_MANAGER_THREAD_COUNT_def OPTION_MODEL_LOAD_THREAD_COUNT_def
  OPTION_BACKEND_CONFIG_def OPTION_HOST_POLICY_def OPTION_MODEL_LOAD_GPU_LIMIT_def
  OPTION_MODEL_NAMESPACING_def

text \<open>
  Modelled from the spec: \<open>struct Option\<close>, its argument-kind constants and
  \<open>Option::GetLongOption\<close> are declared in command_line_parser.h, which is not among the
  sources. By the spec's data model an option descriptor has an identifier, a flag name,
  an argument kind (none, boolean, integer, float, string, or a custom format hint) and a
  description, and a flag takes an argument exactly when its kind is not "none". The
  description (the help text) is left out.
\<close>

record Option =
  option_id :: int \<comment> \<open>\<open>id_\<close>\<close>
  option_flag :: string \<comment> \<open>\<open>flag_\<close>\<close>
  option_arg_desc :: string \<comment> \<open>\<open>arg_desc_\<close>\<close>

definition ArgNone :: string where "ArgNone = ''''"
definition ArgBool :: string where "ArgBool = ''boolean''"
definition ArgInt :: string where "ArgInt = ''integer''"
definition ArgFloat :: string where "ArgFloat = ''float''"
definition ArgStr :: string where "ArgStr = ''string''"

definition has_arg :: "Option \<Rightarrow> bool" where
  "has_arg o' = (option_arg_desc o' \<noteq> ArgNone)"

definition mk_option :: "int \<Rightarrow> string \<Rightarrow> string \<Rightarrow> Option" where
  "mk_option i f a = \<lparr>option_id = i, option_flag = f, option_arg_desc = a\<rparr>"

text \<open>\<open>TritonParser::recognized_options_\<close>, in the order of the source.\<close>

definition recognized_options :: "Option list" where
  "recognized_options =
    [
     mk_option OPTION_HELP ''help'' ArgNone,
     mk_option OPTION_LOG_VERBOSE ''log-verbose'' ArgInt,
     mk_option OPTION_LOG_INFO ''log-info'' ArgBool,
     mk_option OPTION_LOG_WARNING ''log-warning'' ArgBool,
     mk_option OPTION_LOG_ERROR ''log-error'' ArgBool,
     mk_option OPTION_LOG_FORMAT ''log-format'' ArgStr,
     mk_option OPTION_LOG_FILE ''log-file'' ArgStr,
     mk_option OPTION_ID ''id'' ArgStr,
     mk_option OPTION_MODEL_REPOSITORY ''model-store'' ArgStr,
     mk_option OPTION_MODEL_REPOSITORY ''model-repository'' ArgStr,
     mk_option OPTION_EXIT_ON_ERROR ''exit-on-error'' ArgBool,
     mk_option OPTION_DISABLE_AUTO_COMPLETE_CONFIG ''disable-auto-complete-config'' ArgNone,
     mk_option OPTION_STRICT_MODEL_CONFIG ''strict-model-config'' ArgBool,
     mk_option OPTION_STRICT_READINESS ''strict-readiness'' ArgBool,
     mk_option OPTION_ALLOW_HTTP ''allow-http'' ArgBool,
     mk_option OPTION_HTTP_PORT ''http-port'' ArgInt,
     mk_option OPTION_REUSE_HTTP_PORT ''reuse-http-port'' ArgBool,
     mk_option OPTION_HTTP_ADDRESS ''http-address'' ArgStr,
     mk_option OPTION_HTTP_THREAD_COUNT ''http-thread-count'' ArgInt,
     mk_option OPTION_ALLOW_GRPC ''allow-grpc'' ArgBool,
     mk_option OPTION_GRPC_PORT ''grpc-port'' ArgInt,
     mk_option OPTION_REUSE_GRPC_PORT ''reuse-grpc-port'' ArgBool,
     mk_option OPTION_GRPC_ADDRESS ''grpc-address'' ArgStr,
     mk_option OPTION_GRPC_INFER_ALLOCATION_POOL_SIZE ''grpc-infer-allocation-pool-size'' ArgInt,
     mk_option OPTION_GRPC_USE_SSL ''grpc-use-ssl'' ArgBool,
     mk_option OPTION_GRPC_USE_SSL_MUTUAL ''grpc-use-ssl-mutual'' ArgBool,
     mk_option OPTION_GRPC_SERVER_CERT ''grpc-server-cert'' ArgStr,
     mk_option OPTION_GRPC_SERVER_KEY ''grpc-server-key'' ArgStr,
     mk_option OPTION_GRPC_ROOT_CERT ''grpc-root-cert'' ArgStr,
     mk_option OPTION_GRPC_RESPONSE_COMPRESSION_LEVEL ''grpc-infer-response-compression-level'' ArgStr,
     mk_option OPTION_GRPC_ARG_KEEPALIVE_TIME_MS ''grpc-keepalive-time'' ArgInt,
     mk_option OPTION_GRPC_ARG_KEEPALIVE_TIMEOUT_MS ''grpc-keepalive-timeout'' ArgInt,
     mk_option OPTION_GRPC_ARG_KEEPALIVE_PERMIT_WITHOUT_CALLS ''grpc-keepalive-permit-without-calls'' ArgBool,
     mk_option OPTION_GRPC_ARG_HTTP2_MAX_PINGS_WITHOUT_DATA ''grpc-http2-max-pings-without-data'' ArgInt,
     mk_option OPTION_GRPC_ARG_HTTP2_MIN_RECV_PING_INTERVAL_WITHOUT_DATA_MS ''grpc-http2-min-recv-ping-interval-without-data'' ArgInt,
     mk_option OPTION_GRPC_ARG_HTTP2_MAX_PING_STRIKES ''grpc-http2-max-ping-strikes'' ArgInt,
     mk_option OPTION_ALLOW_SAGEMAKER ''allow-sagemaker'' ArgBool,
     mk_option OPTION_SAGEMAKER_PORT ''sagemaker-port'' ArgInt,
     mk_option OPTION_SAGEMAKER_SAFE_PORT_RANGE ''sagemaker-safe-port-range'' ''<integer>-<integer>'',
     mk_option OPTION_SAGEMAKER_THREAD_COUNT ''sagemaker-thread-count'' ArgInt,
     mk_option OPTION_ALLOW_VERTEX_AI ''allow-vertex-ai'' ArgBool,
     mk_option OPTION_VERTEX_AI_PORT ''vertex-ai-port'' ArgInt,
     mk_option OPTION_VERTEX_AI_THREAD_COUNT ''vertex-ai-thread-count'' ArgInt,
     mk_option OPTION_VERTEX_AI_DEFAULT_MODEL ''vertex-ai-default-model'' ArgStr,
     mk_option OPTION_ALLOW_METRICS ''allow-metrics'' ArgBool,
     mk_option OPTION_ALLOW_GPU_METRICS ''allow-gpu-metrics'' ArgBool,
     mk_option OPTION_ALLOW_CPU_METRICS ''allow-cpu-metrics'' ArgBool,
     mk_option OPTION_METRICS_PORT ''metrics-port'' ArgInt,
     mk_option OPTION_METRICS_INTERVAL_MS ''metrics-interval-ms'' ArgFloat,
     mk_option OPTION_TRACE_FILEPATH ''trace-file'' ArgStr,
     mk_option OPTION_TRACE_LEVEL ''trace-level'' ArgStr,
     mk_option OPTION_TRACE_RATE ''trace-rate'' ArgInt,
     mk_option OPTION_TRACE_COUNT ''trace-count'' ArgInt,
     mk_option OPTION_TRACE_LOG_FREQUENCY ''trace-log-frequency'' ArgInt,
     mk_option OPTION_MODEL_CONTROL_MODE ''model-control-mode'' ArgStr,
     mk_option OPTION_POLL_REPO_SECS ''repository-poll-secs'' ArgInt,
     mk_option OPTION_STARTUP_MODEL ''load-model'' ArgStr,
     mk_option OPTION_RATE_LIMIT ''rate-limit'' ArgStr,
     mk_option OPTION_RATE_LIMIT_RESOURCE ''rate-limit-resource'' ''<string>:<integer>:<integer>'',
     mk_option OPTION_PINNED_MEMORY_POOL_BYTE_SIZE ''pinned-memory-pool-byte-size'' ArgInt,
     mk_option OPTION_CUDA_MEMORY_POOL_BYTE_SIZE ''cuda-memory-pool-byte-size'' ''<integer>:<integer>'',
     mk_option OPTION_RESPONSE_CACHE_BYTE_SIZE ''response-cache-byte-size'' ArgInt,
     mk_option OPTION_CACHE_CONFIG ''cache-config'' ''<string>,<string>=<string>'',
     mk_option OPTION_CACHE_DIR ''cache-directory'' ArgStr,
     mk_option OPTION_MIN_SUPPORTED_COMPUTE_CAPABILITY ''min-supported-compute-capability'' ArgFloat,
     mk_option OPTION_EXIT_TIMEOUT_SECS ''exit-timeout-secs'' ArgInt,
     mk_option OPTION_BACKEND_DIR ''backend-directory'' ArgStr,
     mk_option OPTION_REPOAGENT_DIR ''repoagent-directory'' ArgStr,
     mk_option OPTION_BUFFER_MANAGER_THREAD_COUNT ''buffer-manager-thread-count'' ArgInt,
     mk_option OPTION_MODEL_LOAD_THREAD_COUNT ''model-load-thread-count'' ArgInt,
     mk_option OPTION_BACKEND_CONFIG ''backend-config'' ''<string>,<string>=<string>'',
     mk_option OPTION_HOST_POLICY ''host-policy'' ''<string>,<string>=<string>'',
     mk_option OPTION_MODEL_LOAD_GPU_LIMIT ''model-load-gpu-limit'' ''<device_id>:<fraction>'',
     mk_option OPTION_MODEL_NAMESPACING ''model-namespacing'' ArgBool]"

subsection \<open>The parameter set\<close>

text \<open>
  \<open>TritonServerParameters\<close> and the gRPC option structs it contains. The declarations
  are in header files that are not among the sources; the fields below are all those that
  command_line_parser.cc reads or writes, named as in the source without the trailing
  underscore, each holding the value that the right-hand side of its assignment computes. Values of type \<open>double\<close> have the type \<open>'d\<close>.
  \<open>cuda_pools\<close>, \<open>rate_limit_resources\<close>, \<open>backend_config_settings\<close> and
  \<open>host_policies\<close> are filled with \<open>push_back\<close> and are lists;
  \<open>model_repository_paths\<close> and \<open>startup_models\<close> are filled with \<open>insert\<close> of a
  single value and are sets; \<open>cache_config_settings\<close> is indexed by name and
  \<open>load_gpu_limit\<close> is filled with \<open>emplace\<close> of a key and a value: they are maps.
\<close>

datatype LogFormat = kDEFAULT | kISO8601

datatype ModelControlMode =
  TRITONSERVER_MODEL_CONTROL_NONE | TRITONSERVER_MODEL_CONTROL_POLL | TRITONSERVER_MODEL_CONTROL_EXPLICIT

datatype RateLimitMode = TRITONSERVER_RATE_LIMIT_OFF | TRITONSERVER_RATE_LIMIT_EXEC_COUNT

datatype grpc_compression_level =
  GRPC_COMPRESS_LEVEL_NONE | GRPC_COMPRESS_LEVEL_LOW | GRPC_COMPRESS_LEVEL_MED | GRPC_COMPRESS_LEVEL_HIGH

text \<open>The trace level is a bit mask: disabled is the empty mask, the two levels are bits.\<close>

datatype TraceLevel = TRITONSERVER_TRACE_LEVEL_TIMESTAMPS | TRITONSERVER_TRACE_LEVEL_TENSORS

definition TRITONSERVER_TRACE_LEVEL_DISABLED :: "TraceLevel set" where
  "TRITONSERVER_TRACE_LEVEL_DISABLED = {}"

record SocketOptions =
  address :: string
  port :: int
  reuse_port :: bool

record SslOptions =
  use_ssl :: bool
  use_mutual_auth :: bool
  server_cert :: string
  server_key :: string
  root_cert :: string

record KeepAliveOptions =
  keepalive_time_ms :: int
  keepalive_timeout_ms :: int
  keepalive_permit_without_calls :: bool
  http2_max_pings_without_data :: int
  http2_min_recv_ping_interval_without_data_ms :: int
  http2_max_ping_strikes :: int

record GrpcOptions =
  socket :: SocketOptions
  ssl :: SslOptions
  keep_alive :: KeepAliveOptions
  infer_compression_level :: grpc_compression_level
  infer_allocation_pool_size :: int

record 'd TritonServerParameters =
  log_verbose :: int
  log_info :: bool
  log_warn :: bool
  log_error :: bool
  log_format :: LogFormat
  log_file :: string
  server_id :: string
  model_repository_paths :: "string set"
  exit_on_error :: bool
  strict_model_config :: bool
  strict_readiness :: bool
  allow_http :: bool
  http_address :: string
  http_port :: int
  reuse_http_port :: bool
  http_thread_cnt :: int
  allow_grpc :: bool
  grpc_options :: GrpcOptions
  allow_sagemaker :: bool
  sagemaker_address :: string
  sagemaker_port :: int
  sagemaker_safe_range_set :: bool
  sagemaker_safe_range :: "int \<times> int"
  sagemaker_thread_cnt :: int
  allow_vertex_ai :: bool
  vertex_ai_address :: string
  vertex_ai_port :: int
  vertex_ai_thread_cnt :: int
  vertex_ai_default_model :: string
  allow_metrics :: bool
  allow_gpu_metrics :: bool
  allow_cpu_metrics :: bool
  metrics_address :: string
  metrics_port :: int
  metrics_interval_ms :: int
  trace_filepath :: string
  trace_level :: "TraceLevel set"
  trace_rate :: int
  trace_count :: int
  trace_log_frequency :: int
  control_mode :: ModelControlMode
  repository_poll_secs :: int
  startup_models :: "string set"
  rate_limit_mode :: RateLimitMode
  rate_limit_resources :: "(string \<times> int \<times> int) list"
  pinned_memory_pool_byte_size :: int
  cuda_pools :: "(int \<times> nat) list"
  cache_config_settings :: "string \<rightharpoonup> (string \<times> string) list"
  cache_dir :: string
  enable_cache :: bool
  min_supported_compute_capability :: 'd
  exit_timeout_secs :: int
  backend_dir :: string
  repoagent_dir :: string
  buffer_manager_thread_count :: int
  model_load_thread_count :: int
  backend_config_settings :: "(string \<times> string \<times> string) list"
  host_policies :: "(string \<times> string \<times> string) list"
  load_gpu_limit :: "int \<rightharpoonup> 'd"
  enable_model_namespacing :: bool

text \<open>
  \<open>TritonServerParameters::CheckPortCollision\<close>: the entries of the enabled services, in
  the order the source appends them, then the two loops.
\<close>

definition enabled_ports :: "'d TritonServerParameters \<Rightarrow> port_entry list" where
  "enabled_ports p =
     (if allow_http p then [(''HTTP'', http_address p, http_port p, False, - 1, - 1)] else []) @
     (if allow_grpc p
      then [(''GRPC'', address (socket (grpc_options p)), port (socket (grpc_options p)),
             False, - 1, - 1)]
      else []) @
     (if allow_metrics p then [(''metrics'', metrics_address p, metrics_port p, False, - 1, - 1)]
      else []) @
     (if allow_sagemaker p
      then [(''SageMaker'', sagemaker_address p, sagemaker_port p, sagemaker_safe_range_set p,
             fst (sagemaker_safe_range p), snd (sagemaker_safe_range p))]
      else []) @
     (if allow_vertex_ai p
      then [(''Vertex AI'', vertex_ai_address p, vertex_ai_port p, False, - 1, - 1)]
      else [])"

definition CheckPortCollision :: "'d TritonServerParameters \<Rightarrow> parse_error + unit" where
  "CheckPortCollision p = check_ports (enabled_ports p)"

subsection \<open>The option scanner\<close>

text \<open>
  \<open>getopt_long\<close> as this file defines it (the definition is compiled on Windows;
  elsewhere the C library provides the function). Its state is the pair of globals
  \<open>optind\<close> and \<open>optarg\<close>; \<open>longindex\<close> is always \<open>NULL\<close> in \<open>Parse\<close>. It returns
  \<open>-1\<close> at the end of the arguments or when no option has the token's name, \<open>'?'\<close>
  (63) when the argument of an option is missing, and the option's identifier otherwise.
  The key is \<open>argv_str.substr(2, ...)\<close>, which throws for a token shorter than two
  characters.
\<close>

record getopt_state =
  optind :: nat
  optarg :: string

definition getopt_long ::
  "string list \<Rightarrow> Option list \<Rightarrow> getopt_state \<Rightarrow> parse_error + (int \<times> getopt_state)" where
  "getopt_long argv longopts g =
     (if length argv \<le> optind g then Inr (- 1, g)
      else
        let argv_str = argv ! optind g;
            found = str_find argv_str ''='' 0
        in bindE (substr argv_str 2 (if found = npos then npos else size_sub found 2)) (\<lambda>key.
           case find (\<lambda>curr_longopt. option_flag curr_longopt = key) longopts of
             None \<Rightarrow> Inr (- 1, g)
           | Some curr_longopt \<Rightarrow>
               if has_arg curr_longopt then
                 (if found = npos then
                    (if length argv \<le> Suc (optind g)
                     then Inr (63, g\<lparr>optind := Suc (optind g)\<rparr>)
                     else Inr (option_id curr_longopt,
                               g\<lparr>optind := Suc (Suc (optind g)), optarg := argv ! Suc (optind g)\<rparr>))
                  else Inr (option_id curr_longopt,
                            g\<lparr>optind := Suc (optind g), optarg := drop (found + 1) argv_str\<rparr>))
               else Inr (option_id curr_longopt, g\<lparr>optind := Suc (optind g)\<rparr>)))"

subsection \<open>\<open>TritonParser::Parse\<close>\<close>

text \<open>
  The state of the loop: the parameters under construction and the local flags of
  \<open>Parse\<close>.
\<close>

record 'd parse_state =
  lparams :: "'d TritonServerParameters"
  strict_model_config_present :: bool
  disable_auto_complete_config :: bool
  cache_size_present :: bool
  cache_config_present :: bool
  explicit_disable_trace :: bool

definition set_lparams ::
  "('d TritonServerParameters \<Rightarrow> 'd TritonServerParameters) \<Rightarrow> 'd parse_state \<Rightarrow> 'd parse_state" where
  "set_lparams f st = st\<lparr>lparams := f (lparams st)\<rparr>"

definition set_lgrpc_options :: "(GrpcOptions \<Rightarrow> GrpcOptions) \<Rightarrow> 'd parse_state \<Rightarrow> 'd parse_state" where
  "set_lgrpc_options f st = set_lparams (\<lambda>p. p\<lparr>grpc_options := f (grpc_options p)\<rparr>) st"

definition set_socket :: "(SocketOptions \<Rightarrow> SocketOptions) \<Rightarrow> 'd parse_state \<Rightarrow> 'd parse_state" where
  "set_socket f st = set_lgrpc_options (\<lambda>g. g\<lparr>socket := f (socket g)\<rparr>) st"

definition set_ssl :: "(SslOptions \<Rightarrow> SslOptions) \<Rightarrow> 'd parse_state \<Rightarrow> 'd parse_state" where
  "set_ssl f st = set_lgrpc_options (\<lambda>g. g\<lparr>ssl := f (ssl g)\<rparr>) st"

definition set_keep_alive :: "(KeepAliveOptions \<Rightarrow> KeepAliveOptions) \<Rightarrow> 'd parse_state \<Rightarrow> 'd parse_state" where
  "set_keep_alive f st = set_lgrpc_options (\<lambda>g. g\<lparr>keep_alive := f (keep_alive g)\<rparr>) st"

text \<open>\<open>TritonParser::ParseTraceLevelOption\<close>.\<close>

definition ParseTraceLevelOption :: "string \<Rightarrow> parse_error + TraceLevel set" where
  "ParseTraceLevelOption arg0 =
     (let arg = lowercase arg0
      in if arg = ''false'' \<or> arg = ''off'' then Inr TRITONSERVER_TRACE_LEVEL_DISABLED
         else if arg = ''true'' \<or> arg = ''on'' \<or> arg = ''min'' \<or> arg = ''max'' \<or> arg = ''timestamps''
         then Inr {TRITONSERVER_TRACE_LEVEL_TIMESTAMPS}
         else if arg = ''tensors'' then Inr {TRITONSERVER_TRACE_LEVEL_TENSORS}
         else Inl (FormatError ''trace level option'' arg))"

text \<open>\<open>std::to_string\<close> of an integer: its decimal digits, with a minus sign if negative.\<close>

fun digits_of :: "nat \<Rightarrow> string" where
  "digits_of n =
     (if n < 10 then [''0123456789'' ! n] else digits_of (n div 10) @ [''0123456789'' ! (n mod 10)])"

definition to_string :: "int \<Rightarrow> string" where
  "to_string i = (if i < 0 then CHR ''-'' # digits_of (nat (- i)) else digits_of (nat i))"

text \<open>
  The \<open>switch\<close> of the loop body, one branch per \<open>case\<close> label in the order of the
  source; \<open>g\<close> holds \<open>optarg\<close>. Assignments made before a conversion that throws are
  lost with the whole parse, so each branch converts first and then builds the new state.
  Warnings written to \<open>std::cerr\<close> are not part of the state. A flag value without a
  \<open>case\<close> label leaves the state as it is.
\<close>

definition switch_case ::
  "(string \<Rightarrow> parse_error + 'd) \<Rightarrow> int \<Rightarrow> getopt_state \<Rightarrow> 'd parse_state \<Rightarrow>
     parse_error + 'd parse_state" where
  "switch_case stod flag g st =
    (if flag = OPTION_HELP \<or> flag = 63 then Inl Usage
     else if flag = OPTION_LOG_VERBOSE then
       bindE (ParseIntBoolOption (optarg g)) (\<lambda>v. Inr (set_lparams (\<lambda>p. p\<lparr>log_verbose := v\<rparr>) st))
     else if flag = OPTION_LOG_INFO then
       bindE (ParseOption_bool (optarg g)) (\<lambda>v. Inr (set_lparams (\<lambda>p. p\<lparr>log_info := v\<rparr>) st))
     else if flag = OPTION_LOG_WARNING then
       bindE (ParseOption_bool (optarg g)) (\<lambda>v. Inr (set_lparams (\<lambda>p. p\<lparr>log_warn := v\<rparr>) st))
     else if flag = OPTION_LOG_ERROR then
       bindE (ParseOption_bool (optarg g)) (\<lambda>v. Inr (set_lparams (\<lambda>p. p\<lparr>log_error := v\<rparr>) st))
     else if flag = OPTION_LOG_FORMAT then
       (if optarg g = ''default'' then Inr (set_lparams (\<lambda>p. p\<lparr>log_format := kDEFAULT\<rparr>) st)
        else if optarg g = ''ISO8601'' then Inr (set_lparams (\<lambda>p. p\<lparr>log_format := kISO8601\<rparr>) st)
        else Inl (FormatError ''--log-format'' (optarg g)))
     else if flag = OPTION_LOG_FILE then
       Inr (set_lparams (\<lambda>p. p\<lparr>log_file := optarg g\<rparr>) st)
     else if flag = OPTION_ID then
       Inr (set_lparams (\<lambda>p. p\<lparr>server_id := optarg g\<rparr>) st)
     else if flag = OPTION_MODEL_REPOSITORY then
       Inr (set_lparams (\<lambda>p. p\<lparr>model_repository_paths := insert (optarg g) (model_repository_paths p)\<rparr>) st)
     else if flag = OPTION_EXIT_ON_ERROR then
       bindE (ParseOption_bool (optarg g)) (\<lambda>v. Inr (set_lparams (\<lambda>p. p\<lparr>exit_on_error := v\<rparr>) st))
     else if flag = OPTION_DISABLE_AUTO_COMPLETE_CONFIG then
       Inr (st\<lparr>disable_auto_complete_config := True\<rparr>)
     else if flag = OPTION_STRICT_MODEL_CONFIG then
       bindE (ParseOption_bool (optarg g)) (\<lambda>v.
         Inr (set_lparams (\<lambda>p. p\<lparr>strict_model_config := v\<rparr>) (st\<lparr>strict_model_config_present := True\<rparr>)))
     else if flag = OPTION_STRICT_READINESS then
       bindE (ParseOption_bool (optarg g)) (\<lambda>v. Inr (set_lparams (\<lambda>p. p\<lparr>strict_readiness := v\<rparr>) st))
     else if flag = OPTION_ALLOW_HTTP then
       bindE (ParseOption_bool (optarg g)) (\<lambda>v. Inr (set_lparams (\<lambda>p. p\<lparr>allow_http := v\<rparr>) st))
     else if flag = OPTION_HTTP_PORT then
       bindE (ParseOption_int (optarg g)) (\<lambda>v. Inr (set_lparams (\<lambda>p. p\<lparr>http_port := v\<rparr>) st))
     else if flag = OPTION_REUSE_HTTP_PORT then
       bindE (ParseOption_int (optarg g)) (\<lambda>v. Inr (set_lparams (\<lambda>p. p\<lparr>reuse_http_port := (v \<noteq> 0)\<rparr>) st))
     else if flag = OPTION_HTTP_ADDRESS then
       Inr (set_lparams (\<lambda>p. p\<lparr>http_address := optarg g, metrics_address := optarg g\<rparr>) st)
     else if flag = OPTION_HTTP_THREAD_COUNT then
       bindE (ParseOption_int (optarg g)) (\<lambda>v. Inr (set_lparams (\<lambda>p. p\<lparr>http_thread_cnt := v\<rparr>) st))
     else if flag = OPTION_ALLOW_SAGEMAKER then
       bindE (ParseOption_bool (optarg g)) (\<lambda>v. Inr (set_lparams (\<lambda>p. p\<lparr>allow_sagemaker := v\<rparr>) st))
     else if flag = OPTION_SAGEMAKER_PORT then
       bindE (ParseOption_int (optarg g)) (\<lambda>v. Inr (set_lparams (\<lambda>p. p\<lparr>sagemaker_port := v\<rparr>) st))
     else if flag = OPTION_SAGEMAKER_SAFE_PORT_RANGE then
       bindE (ParsePairOption ParseOption_int ParseOption_int (optarg g) ''-'') (\<lambda>v.
         Inr (set_lparams (\<lambda>p. p\<lparr>sagemaker_safe_range_set := True, sagemaker_safe_range := v\<rparr>) st))
     else if flag = OPTION_SAGEMAKER_THREAD_COUNT then
       bindE (ParseOption_int (optarg g)) (\<lambda>v. Inr (set_lparams (\<lambda>p. p\<lparr>sagemaker_thread_cnt := v\<rparr>) st))
     else if flag = OPTION_ALLOW_VERTEX_AI then
       bindE (ParseOption_bool (optarg g)) (\<lambda>v. Inr (set_lparams (\<lambda>p. p\<lparr>allow_vertex_ai := v\<rparr>) st))
     else if flag = OPTION_VERTEX_AI_PORT then
       bindE (ParseOption_int (optarg g)) (\<lambda>v. Inr (set_lparams (\<lambda>p. p\<lparr>vertex_ai_port := v\<rparr>) st))
     else if flag = OPTION_VERTEX_AI_THREAD_COUNT then
       bindE (ParseOption_int (optarg g)) (\<lambda>v. Inr (set_lparams (\<lambda>p. p\<lparr>vertex_ai_thread_cnt := v\<rparr>) st))
     else if flag = OPTION_VERTEX_AI_DEFAULT_MODEL then
       Inr (set_lparams (\<lambda>p. p\<lparr>vertex_ai_default_model := optarg g\<rparr>) st)
     else if flag = OPTION_ALLOW_GRPC then
       bindE (ParseOption_bool (optarg g)) (\<lambda>v. Inr (set_lparams (\<lambda>p. p\<lparr>allow_grpc := v\<rparr>) st))
     else if flag = OPTION_GRPC_PORT then
       bindE (ParseOption_int (optarg g)) (\<lambda>v. Inr (set_socket (\<lambda>s. s\<lparr>port := v\<rparr>) st))
     else if flag = OPTION_REUSE_GRPC_PORT then
       bindE (ParseOption_int (optarg g)) (\<lambda>v. Inr (set_socket (\<lambda>s. s\<lparr>reuse_port := (v \<noteq> 0)\<rparr>) st))
     else if flag = OPTION_GRPC_ADDRESS then
       Inr (set_socket (\<lambda>s. s\<lparr>address := optarg g\<rparr>) st)
     else if flag = OPTION_GRPC_INFER_ALLOCATION_POOL_SIZE then
       bindE (ParseOption_int (optarg g)) (\<lambda>v.
         Inr (set_lgrpc_options (\<lambda>o'. o'\<lparr>infer_allocation_pool_size := v\<rparr>) st))
     else if flag = OPTION_GRPC_USE_SSL then
       bindE (ParseOption_bool (optarg g)) (\<lambda>v. Inr (set_ssl (\<lambda>s. s\<lparr>use_ssl := v\<rparr>) st))
     else if flag = OPTION_GRPC_USE_SSL_MUTUAL then
       bindE (ParseOption_bool (optarg g)) (\<lambda>v.
         Inr (set_ssl (\<lambda>s. s\<lparr>use_mutual_auth := v, use_ssl := True\<rparr>) st))
     else if flag = OPTION_GRPC_SERVER_CERT then
       Inr (set_ssl (\<lambda>s. s\<lparr>server_cert := optarg g\<rparr>) st)
     else if flag = OPTION_GRPC_SERVER_KEY then
       Inr (set_ssl (\<lambda>s. s\<lparr>server_key := optarg g\<rparr>) st)
     else if flag = OPTION_GRPC_ROOT_CERT then
       Inr (set_ssl (\<lambda>s. s\<lparr>root_cert := optarg g\<rparr>) st)
     else if flag = OPTION_GRPC_RESPONSE_COMPRESSION_LEVEL then
       (let mode_str = lowercase (optarg g)
        in if mode_str = ''none'' then
             Inr (set_lgrpc_options (\<lambda>o'. o'\<lparr>infer_compression_level := GRPC_COMPRESS_LEVEL_NONE\<rparr>) st)
           else if mode_str = ''low'' then
             Inr (set_lgrpc_options (\<lambda>o'. o'\<lparr>infer_compression_level := GRPC_COMPRESS_LEVEL_LOW\<rparr>) st)
           else if mode_str = ''medium'' then
             Inr (set_lgrpc_options (\<lambda>o'. o'\<lparr>infer_compression_level := GRPC_COMPRESS_LEVEL_MED\<rparr>) st)
           else if mode_str = ''high'' then
             Inr (set_lgrpc_options (\<lambda>o'. o'\<lparr>infer_compression_level := GRPC_COMPRESS_LEVEL_HIGH\<rparr>) st)
           else Inl (FormatError ''--grpc_infer_response_compression_level'' (optarg g)))
     else if flag = OPTION_GRPC_ARG_KEEPALIVE_TIME_MS then
       bindE (ParseOption_int (optarg g)) (\<lambda>v. Inr (set_keep_alive (\<lambda>k. k\<lparr>keepalive_time_ms := v\<rparr>) st))
     else if flag = OPTION_GRPC_ARG_KEEPALIVE_TIMEOUT_MS then
       bindE (ParseOption_int (optarg g)) (\<lambda>v. Inr (set_keep_alive (\<lambda>k. k\<lparr>keepalive_timeout_ms := v\<rparr>) st))
     else if flag = OPTION_GRPC_ARG_KEEPALIVE_PERMIT_WITHOUT_CALLS then
       bindE (ParseOption_bool (optarg g)) (\<lambda>v.
         Inr (set_keep_alive (\<lambda>k. k\<lparr>keepalive_permit_without_calls := v\<rparr>) st))
     else if flag = OPTION_GRPC_ARG_HTTP2_MAX_PINGS_WITHOUT_DATA then
       bindE (ParseOption_int (optarg g)) (\<lambda>v.
         Inr (set_keep_alive (\<lambda>k. k\<lparr>http2_max_pings_without_data := v\<rparr>) st))
     else if flag = OPTION_GRPC_ARG_HTTP2_MIN_RECV_PING_INTERVAL_WITHOUT_DATA_MS then
       bindE (ParseOption_int (optarg g)) (\<lambda>v.
         Inr (set_keep_alive (\<lambda>k. k\<lparr>http2_min_recv_ping_interval_without_data_ms := v\<rparr>) st))
     else if flag = OPTION_GRPC_ARG_HTTP2_MAX_PING_STRIKES then
       bindE (ParseOption_int (optarg g)) (\<lambda>v.
         Inr (set_keep_alive (\<lambda>k. k\<lparr>http2_max_ping_strikes := v\<rparr>) st))
     else if flag = OPTION_ALLOW_METRICS then
       bindE (ParseOption_bool (optarg g)) (\<lambda>v. Inr (set_lparams (\<lambda>p. p\<lparr>allow_metrics := v\<rparr>) st))
     else if flag = OPTION_ALLOW_GPU_METRICS then
       bindE (ParseOption_bool (optarg g)) (\<lambda>v. Inr (set_lparams (\<lambda>p. p\<lparr>allow_gpu_metrics := v\<rparr>) st))
     else if flag = OPTION_ALLOW_CPU_METRICS then
       bindE (ParseOption_bool (optarg g)) (\<lambda>v. Inr (set_lparams (\<lambda>p. p\<lparr>allow_cpu_metrics := v\<rparr>) st))
     else if flag = OPTION_METRICS_PORT then
       bindE (ParseOption_int (optarg g)) (\<lambda>v. Inr (set_lparams (\<lambda>p. p\<lparr>metrics_port := v\<rparr>) st))
     else if flag = OPTION_METRICS_INTERVAL_MS then
       bindE (ParseOption_int (optarg g)) (\<lambda>v. Inr (set_lparams (\<lambda>p. p\<lparr>metrics_interval_ms := v\<rparr>) st))
     else if flag = OPTION_TRACE_FILEPATH then
       Inr (set_lparams (\<lambda>p. p\<lparr>trace_filepath := optarg g\<rparr>) st)
     else if flag = OPTION_TRACE_LEVEL then
       bindE (ParseTraceLevelOption (optarg g)) (\<lambda>parsed_level.
         Inr (set_lparams (\<lambda>p. p\<lparr>trace_level := trace_level p \<union> parsed_level\<rparr>)
                (st\<lparr>explicit_disable_trace :=
                      (explicit_disable_trace st \<or> parsed_level = TRITONSERVER_TRACE_LEVEL_DISABLED)\<rparr>)))
     else if flag = OPTION_TRACE_RATE then
       bindE (ParseOption_int (optarg g)) (\<lambda>v. Inr (set_lparams (\<lambda>p. p\<lparr>trace_rate := v\<rparr>) st))
     else if flag = OPTION_TRACE_COUNT then
       bindE (ParseOption_int (optarg g)) (\<lambda>v. Inr (set_lparams (\<lambda>p. p\<lparr>trace_count := v\<rparr>) st))
     else if flag = OPTION_TRACE_LOG_FREQUENCY then
       bindE (ParseOption_int (optarg g)) (\<lambda>v. Inr (set_lparams (\<lambda>p. p\<lparr>trace_log_frequency := v\<rparr>) st))
     else if flag = OPTION_POLL_REPO_SECS then
       bindE (ParseOption_int (optarg g)) (\<lambda>v. Inr (set_lparams (\<lambda>p. p\<lparr>repository_poll_secs := v\<rparr>) st))
     else if flag = OPTION_STARTUP_MODEL then
       Inr (set_lparams (\<lambda>p. p\<lparr>startup_models := insert (optarg g) (startup_models p)\<rparr>) st)
     else if flag = OPTION_MODEL_CONTROL_MODE then
       (let mode_str = lowercase (optarg g)
        in if mode_str = ''none'' then
             Inr (set_lparams (\<lambda>p. p\<lparr>control_mode := TRITONSERVER_MODEL_CONTROL_NONE\<rparr>) st)
           else if mode_str = ''poll'' then
             Inr (set_lparams (\<lambda>p. p\<lparr>control_mode := TRITONSERVER_MODEL_CONTROL_POLL\<rparr>) st)
           else if mode_str = ''explicit'' then
             Inr (set_lparams (\<lambda>p. p\<lparr>control_mode := TRITONSERVER_MODEL_CONTROL_EXPLICIT\<rparr>) st)
           else Inl (FormatError ''--model-control-mode'' (optarg g)))
     else if flag = OPTION_RATE_LIMIT then
       (let rate_limit_str = lowercase (optarg g)
        in if rate_limit_str = ''execution_count'' then
             Inr (set_lparams (\<lambda>p. p\<lparr>rate_limit_mode := TRITONSERVER_RATE_LIMIT_EXEC_COUNT\<rparr>) st)
           else if rate_limit_str = ''off'' then
             Inr (set_lparams (\<lambda>p. p\<lparr>rate_limit_mode := TRITONSERVER_RATE_LIMIT_OFF\<rparr>) st)
           else Inl (FormatError ''--rate-limit'' (optarg g)))
     else if flag = OPTION_RATE_LIMIT_RESOURCE then
       (case ParseRateLimiterResourceOption (optarg g) of
          Inl e \<Rightarrow>
            if e = std_invalid_argument then Inl (FormatError ''<str>:<int>:<int>'' (optarg g))
            else Inl e
        | Inr r \<Rightarrow>
            Inr (set_lparams (\<lambda>p. p\<lparr>rate_limit_resources := rate_limit_resources p @ [r]\<rparr>) st))
     else if flag = OPTION_PINNED_MEMORY_POOL_BYTE_SIZE then
       bindE (ParseOption_int64 (optarg g)) (\<lambda>v.
         Inr (set_lparams (\<lambda>p. p\<lparr>pinned_memory_pool_byte_size := v\<rparr>) st))
     else if flag = OPTION_CUDA_MEMORY_POOL_BYTE_SIZE then
       bindE (ParsePairOption ParseOption_int ParseOption_uint64 (optarg g) '':'') (\<lambda>v.
         Inr (set_lparams (\<lambda>p. p\<lparr>cuda_pools := cuda_pools p @ [v]\<rparr>) st))
     else if flag = OPTION_RESPONSE_CACHE_BYTE_SIZE then
       bindE (ParseOption_int64 (optarg g)) (\<lambda>v.
         let byte_size = to_string v
         in Inr (set_lparams
                   (\<lambda>p. p\<lparr>cache_config_settings :=
                            (cache_config_settings p)(''local'' \<mapsto> [(''size'', byte_size)])\<rparr>)
                   (st\<lparr>cache_size_present := True\<rparr>)))
     else if flag = OPTION_CACHE_CONFIG then
       bindE (ParseCacheConfigOption (optarg g)) (\<lambda>(cache_name, key, val).
         Inr (set_lparams
                (\<lambda>p. p\<lparr>cache_config_settings :=
                         (cache_config_settings p)
                           (cache_name \<mapsto>
                              (case cache_config_settings p cache_name of None \<Rightarrow> [] | Some l \<Rightarrow> l) @
                              [(key, val)])\<rparr>)
                (st\<lparr>cache_config_present := True\<rparr>)))
     else if flag = OPTION_CACHE_DIR then
       Inr (set_lparams (\<lambda>p. p\<lparr>cache_dir := optarg g\<rparr>) st)
     else if flag = OPTION_MIN_SUPPORTED_COMPUTE_CAPABILITY then
       bindE (ParseOption_double stod (optarg g)) (\<lambda>v.
         Inr (set_lparams (\<lambda>p. p\<lparr>min_supported_compute_capability := v\<rparr>) st))
     else if flag = OPTION_EXIT_TIMEOUT_SECS then
       bindE (ParseOption_int (optarg g)) (\<lambda>v. Inr (set_lparams (\<lambda>p. p\<lparr>exit_timeout_secs := v\<rparr>) st))
     else if flag = OPTION_BACKEND_DIR then
       Inr (set_lparams (\<lambda>p. p\<lparr>backend_dir := optarg g\<rparr>) st)
     else if flag = OPTION_REPOAGENT_DIR then
       Inr (set_lparams (\<lambda>p. p\<lparr>repoagent_dir := optarg g\<rparr>) st)
     else if flag = OPTION_BUFFER_MANAGER_THREAD_COUNT then
       bindE (ParseOption_int (optarg g)) (\<lambda>v.
         Inr (set_lparams (\<lambda>p. p\<lparr>buffer_manager_thread_count := v\<rparr>) st))
     else if flag = OPTION_MODEL_LOAD_THREAD_COUNT then
       bindE (ParseOption_int (optarg g)) (\<lambda>v.
         Inr (set_lparams (\<lambda>p. p\<lparr>model_load_thread_count := v\<rparr>) st))
     else if flag = OPTION_BACKEND_CONFIG then
       bindE (ParseBackendConfigOption (optarg g)) (\<lambda>v.
         Inr (set_lparams (\<lambda>p. p\<lparr>backend_config_settings := backend_config_settings p @ [v]\<rparr>) st))
     else if flag = OPTION_HOST_POLICY then
       bindE (ParseHostPolicyOption (optarg g)) (\<lambda>v.
         Inr (set_lparams (\<lambda>p. p\<lparr>host_policies := host_policies p @ [v]\<rparr>) st))
     else if flag = OPTION_MODEL_LOAD_GPU_LIMIT then
       bindE (ParsePairOption ParseOption_int (ParseOption_double stod) (optarg g) '':'') (\<lambda>(dev, frac).
         Inr (set_lparams
                (\<lambda>p. p\<lparr>load_gpu_limit :=
                         (if load_gpu_limit p dev = None then (load_gpu_limit p)(dev \<mapsto> frac)
                          else load_gpu_limit p)\<rparr>)
                st))
     else if flag = OPTION_MODEL_NAMESPACING then
       bindE (ParseOption_bool (optarg g)) (\<lambda>v.
         Inr (set_lparams (\<lambda>p. p\<lparr>enable_model_namespacing := v\<rparr>) st))
     else Inr st)"

text \<open>
  The loop \<open>while ((flag = getopt_long(...)) != -1) { switch (flag) ... }\<close>. It returns
  the scanner state and the parse state when the scanner returns \<open>-1\<close>.
\<close>

function scan_options ::
  "(string \<Rightarrow> parse_error + 'd) \<Rightarrow> string list \<Rightarrow> getopt_state \<Rightarrow> 'd parse_state \<Rightarrow>
     parse_error + (getopt_state \<times> 'd parse_state)" where
  "scan_options stod argv g st =
     (case getopt_long argv recognized_options g of
        Inl e \<Rightarrow> Inl e
      | Inr (flag, g') \<Rightarrow>
          if flag = - 1 then Inr (g', st)
          else (case switch_case stod flag g' st of
                  Inl e \<Rightarrow> Inl e
                | Inr st' \<Rightarrow> scan_options stod argv g' st'))"
  by pat_completeness auto
termination
  apply (relation "measure (\<lambda>(stod, argv, g, st). length argv - optind g)")
   apply simp
  apply (auto simp: getopt_long_def bindE_def Let_def split: if_splits sum.splits option.splits)
  done

declare scan_options.simps [simp del]

text \<open>
  Modelled from the spec: \<open>GetEnvironmentVariableOrDefault\<close> is declared in common.h,
  which is not among the sources. By the spec the environment supplies default values:
  the function returns the value of the variable, or the given default when the variable
  is not set. The environment is the parameter \<open>env\<close>.
\<close>

definition GetEnvironmentVariableOrDefault :: "(string \<rightharpoonup> string) \<Rightarrow> string \<Rightarrow> string \<Rightarrow> string" where
  "GetEnvironmentVariableOrDefault env name dflt = (case env name of Some v \<Rightarrow> v | None \<Rightarrow> dflt)"

text \<open>
  Step 1 of \<open>Parse\<close>, "before parsing setup": the default-constructed parameters
  \<open>lparams0\<close> (their initial values are in the header), the local flags, and the defaults
  taken from the environment.
\<close>

definition initial_state :: "'d TritonServerParameters \<Rightarrow> 'd parse_state" where
  "initial_state lparams0 =
     \<lparr>lparams = lparams0, strict_model_config_present = False,
      disable_auto_complete_config = False, cache_size_present = False,
      cache_config_present = False, explicit_disable_trace = False\<rparr>"

definition before_parsing :: "(string \<rightharpoonup> string) \<Rightarrow> 'd parse_state \<Rightarrow> parse_error + 'd parse_state" where
  "before_parsing env st =
     (let aip_mode = GetEnvironmentVariableOrDefault env ''AIP_MODE'' [];
          st1 = (if aip_mode = ''PREDICTION''
                 then set_lparams (\<lambda>p. p\<lparr>allow_vertex_ai := True, allow_http := False,
                                           allow_grpc := False\<rparr>) st
                 else st);
          port_str = GetEnvironmentVariableOrDefault env ''AIP_HTTP_PORT'' ''8080''
      in bindE (ParseOption_int port_str) (\<lambda>v. Inr (set_lparams (\<lambda>p. p\<lparr>vertex_ai_port := v\<rparr>) st1)))"

text \<open>
  Step 3 of \<open>Parse\<close>, "post parsing validation". Each statement of the source is one
  definition, in the order of the source; \<open>post_parsing\<close> runs them and ends with the
  test of the two cache flags.
\<close>

definition reset_poll_secs :: "'d parse_state \<Rightarrow> 'd parse_state" where
  "reset_poll_secs st =
     (if control_mode (lparams st) \<noteq> TRITONSERVER_MODEL_CONTROL_POLL
      then set_lparams (\<lambda>p. p\<lparr>repository_poll_secs := 0\<rparr>) st
      else st)"

definition default_model_repository :: "(string \<rightharpoonup> string) \<Rightarrow> 'd parse_state \<Rightarrow> 'd parse_state" where
  "default_model_repository env st =
     (if model_repository_paths (lparams st) = {} then
        (let aip_storage_uri = GetEnvironmentVariableOrDefault env ''AIP_STORAGE_URI'' []
         in if aip_storage_uri \<noteq> []
            then set_lparams (\<lambda>p. p\<lparr>model_repository_paths :=
                                       insert aip_storage_uri (model_repository_paths p)\<rparr>) st
            else st)
      else st)"

definition mask_metrics :: "'d parse_state \<Rightarrow> 'd parse_state" where
  "mask_metrics st =
     set_lparams (\<lambda>p. p\<lparr>allow_gpu_metrics := (allow_gpu_metrics p \<and> allow_metrics p),
                        allow_cpu_metrics := (allow_cpu_metrics p \<and> allow_metrics p)\<rparr>) st"

definition disable_trace :: "'d parse_state \<Rightarrow> 'd parse_state" where
  "disable_trace st =
     (if explicit_disable_trace st
      then set_lparams (\<lambda>p. p\<lparr>trace_level := TRITONSERVER_TRACE_LEVEL_DISABLED\<rparr>) st
      else st)"

definition override_strict_model_config :: "'d parse_state \<Rightarrow> 'd parse_state" where
  "override_strict_model_config st =
     (if disable_auto_complete_config st
      then set_lparams (\<lambda>p. p\<lparr>strict_model_config := True\<rparr>) st
      else st)"

definition post_parsing :: "(string \<rightharpoonup> string) \<Rightarrow> 'd parse_state \<Rightarrow> parse_error + 'd TritonServerParameters" where
  "post_parsing env st =
     (let st5 = override_strict_model_config
                  (disable_trace (mask_metrics (default_model_repository env (reset_poll_secs st))))
      in if cache_size_present st5 \<and> cache_config_present st5
         then Inl (ConflictingOptions ''--response-cache-byte-size'' ''--cache-config'')
         else Inr ((lparams st5)\<lparr>enable_cache := (cache_size_present st5 \<or> cache_config_present st5)\<rparr>))"

text \<open>
  \<open>Parse\<close>: the three steps, with the test for a left-over argument between the loop and
  the validation. \<open>optind\<close> is 1 when the process starts. The second component of the
  result of the source is always the empty vector and is left out.
\<close>

definition Parse ::
  "(string \<Rightarrow> parse_error + 'd) \<Rightarrow> (string \<rightharpoonup> string) \<Rightarrow> 'd TritonServerParameters \<Rightarrow> string list \<Rightarrow>
     parse_error + 'd TritonServerParameters" where
  "Parse stod env lparams0 argv =
     bindE (before_parsing env (initial_state lparams0)) (\<lambda>st1.
     bindE (scan_options stod argv \<lparr>optind = 1, optarg = []\<rparr> st1) (\<lambda>(g, st2).
     if optind g < length argv then Inl (UnexpectedArgument (argv ! optind g))
     else post_parsing env st2))"

text \<open>
  The flags and arguments that successive calls of \<open>getopt_long\<close> return for a token
  list, up to the call that returns \<open>-1\<close> (or throws). The scanner does not depend on
  what the \<open>switch\<close> does with them.
\<close>

function option_events :: "string list \<Rightarrow> getopt_state \<Rightarrow> (int \<times> string) list" where
  "option_events argv g =
     (case getopt_long argv recognized_options g of
        Inl e \<Rightarrow> []
      | Inr (flag, g') \<Rightarrow>
          if flag = - 1 then [] else (flag, optarg g') # option_events argv g')"
  by pat_completeness auto
termination
  apply (relation "measure (\<lambda>(argv, g). length argv - optind g)")
   apply simp
  apply (auto simp: getopt_long_def bindE_def Let_def split: if_splits sum.splits option.splits)
  done

declare option_events.simps [simp del]

subsection \<open>A parameter set for the examples\<close>

text \<open>
  The examples below start from this parameter set: HTTP, GRPC and metrics enabled on
  \<open>0.0.0.0\<close> with ports 8000, 8001 and 8002, SageMaker and Vertex AI disabled with port
  8080, model control mode "none", rate limiting off, and the values that the help texts
  of the registry state as defaults. In the examples the type \<open>double\<close> is \<open>unit\<close>,
  \<open>std::stod\<close> accepts every string, and no environment variable is set.
\<close>

definition example_lparams :: "unit TritonServerParameters" where
  "example_lparams =
     \<lparr>log_verbose = 0, log_info = True, log_warn = True, log_error = True,
      log_format = kDEFAULT, log_file = [],
      server_id = ''triton'', model_repository_paths = {}, exit_on_error = True,
      strict_model_config = False, strict_readiness = True,
      allow_http = True, http_address = ''0.0.0.0'', http_port = 8000, reuse_http_port = False,
      http_thread_cnt = 8,
      allow_grpc = True,
      grpc_options =
        \<lparr>socket = \<lparr>address = ''0.0.0.0'', port = 8001, reuse_port = False\<rparr>,
         ssl = \<lparr>use_ssl = False, use_mutual_auth = False, server_cert = [], server_key = [],
                root_cert = []\<rparr>,
         keep_alive =
           \<lparr>keepalive_time_ms = 7200000, keepalive_timeout_ms = 20000,
            keepalive_permit_without_calls = False, http2_max_pings_without_data = 2,
            http2_min_recv_ping_interval_without_data_ms = 300000, http2_max_ping_strikes = 2\<rparr>,
         infer_compression_level = GRPC_COMPRESS_LEVEL_NONE, infer_allocation_pool_size = 8\<rparr>,
      allow_sagemaker = False, sagemaker_address = ''0.0.0.0'', sagemaker_port = 8080,
      sagemaker_safe_range_set = False, sagemaker_safe_range = (- 1, - 1), sagemaker_thread_cnt = 8,
      allow_vertex_ai = False, vertex_ai_address = ''0.0.0.0'', vertex_ai_port = 8080,
      vertex_ai_thread_cnt = 8, vertex_ai_default_model = [],
      allow_metrics = True, allow_gpu_metrics = True, allow_cpu_metrics = True,
      metrics_address = ''0.0.0.0'', metrics_port = 8002, metrics_interval_ms = 2000,
      trace_filepath = [], trace_level = TRITONSERVER_TRACE_LEVEL_DISABLED, trace_rate = 1000,
      trace_count = - 1, trace_log_frequency = 0,
      control_mode = TRITONSERVER_MODEL_CONTROL_NONE, repository_poll_secs = 15,
      startup_models = {}, rate_limit_mode = TRITONSERVER_RATE_LIMIT_OFF,
      rate_limit_resources = [], pinned_memory_pool_byte_size = 268435456, cuda_pools = [],
      cache_config_settings = Map.empty, cache_dir = ''/opt/tritonserver/caches'',
      enable_cache = False, min_supported_compute_capability = (), exit_timeout_secs = 30,
      backend_dir = ''/opt/tritonserver/backends'', repoagent_dir = ''/opt/tritonserver/repoagents'',
      buffer_manager_thread_count = 0, model_load_thread_count = 4,
      backend_config_settings = [], host_policies = [], load_gpu_limit = Map.empty,
      enable_model_namespacing = False\<rparr>"

definition example_stod :: "string \<Rightarrow> parse_error + unit" where
  "example_stod s = Inr ()"

definition example_env :: "string \<rightharpoonup> string" where
  "example_env = Map.empty"

subsection \<open>The compound formats in the words of the specification\<close>

text \<open>
  The definitions of this part are not translations of the source. They state the formats
  as the specification words them, to be compared with the parsers above.

  \<open>split_first c s\<close> splits \<open>s\<close> at the first occurrence of \<open>c\<close>, if there is one.
  The named-setting format \<open>group,key=value\<close>: split at the first comma into the
  group name, which must not be empty, then at the first \<open>=\<close> after that comma into key
  and value, which must not be empty either.
\<close>

definition split_first :: "char \<Rightarrow> string \<Rightarrow> (string \<times> string) option" where
  "split_first c s =
     (if c \<in> set s then Some (takeWhile (\<lambda>x. x \<noteq> c) s, tl (dropWhile (\<lambda>x. x \<noteq> c) s)) else None)"

definition named_setting_spec :: "string \<Rightarrow> (string \<times> string \<times> string) option" where
  "named_setting_spec raw =
     (case split_first CHR '','' raw of
        None \<Rightarrow> None
      | Some (group_name, rest) \<Rightarrow>
          if group_name = [] then None
          else (case split_first CHR ''='' rest of
                  None \<Rightarrow> None
                | Some (key, val) \<Rightarrow> if key = [] \<or> val = [] then None else Some (group_name, key, val)))"

text \<open>A result is a format error when it is the exception \<open>FormatError\<close>.\<close>

definition is_format_error :: "parse_error + 'a \<Rightarrow> bool" where
  "is_format_error r = (case r of Inl (FormatError what arg) \<Rightarrow> True | _ \<Rightarrow> False)"

definition agrees_with_named_setting_spec ::
  "(string \<Rightarrow> parse_error + (string \<times> string \<times> string)) \<Rightarrow> string \<Rightarrow> bool" where
  "agrees_with_named_setting_spec parser raw =
     (case named_setting_spec raw of
        None \<Rightarrow> is_format_error (parser raw)
      | Some r \<Rightarrow> parser raw = Inr r)"

text \<open>
  The rate-limit resource format is colon-delimited: \<open>fields\<close> cuts a string at every
  colon. Two fields are name and count, with device \<open>-1\<close>; three fields are name, count
  and device; count and device are read with the integer parser; any other number of
  fields is a format error.
\<close>

fun fields :: "char \<Rightarrow> string \<Rightarrow> string list" where
  "fields c [] = [[]]"
| "fields c (x # xs) =
     (if x = c then [] # fields c xs
      else case fields c xs of f # fs \<Rightarrow> (x # f) # fs | [] \<Rightarrow> [[x]])"

definition rate_limit_resource_spec :: "string \<Rightarrow> parse_error + (string \<times> int \<times> int)" where
  "rate_limit_resource_spec raw =
     (case fields CHR '':'' raw of
        [name, cnt] \<Rightarrow> bindE (ParseOption_int cnt) (\<lambda>n. Inr (name, n, - 1))
      | [name, cnt, device] \<Rightarrow>
          bindE (ParseOption_int cnt) (\<lambda>n.
          bindE (ParseOption_int device) (\<lambda>d. Inr (name, n, d)))
      | _ \<Rightarrow> Inl (FormatError ''--rate-limit-resource'' raw))"

subsection \<open>The conditions of the port collision check\<close>

text \<open>
  The two conditions of the check as relations between two entries: \<open>a\<close> sets a range and
  the port of \<open>b\<close> is outside it; \<open>a\<close> and \<open>b\<close> have the same port.
\<close>

definition outside_range_of :: "port_entry \<Rightarrow> port_entry \<Rightarrow> bool" where
  "outside_range_of a b = (get3 a \<and> (get2 b < get4 a \<or> get5 a < get2 b))"

definition same_port :: "port_entry \<Rightarrow> port_entry \<Rightarrow> bool" where
  "same_port a b = (get2 a = get2 b)"

definition clash :: "port_entry \<Rightarrow> port_entry \<Rightarrow> bool" where
  "clash a b =
     (get1 a = get1 b \<and> (outside_range_of a b \<or> outside_range_of b a \<or> same_port a b))"





subsection \<open>Observations on a run of \<open>Parse\<close>\<close>

text \<open>
  Notions used to state claims about token lists; they are not part of the source.
  A flag is given in a token list when the scanner returns it for one of the tokens. The
  scan of a token list completes when step 1 and the loop raise no exception and no
  token is left over. \<open>cuda_pool_entries\<close> collects, in order, the pairs that the
  occurrences of the CUDA memory pool flag among the scanner's events denote.
\<close>

definition flag_given :: "int \<Rightarrow> string list \<Rightarrow> bool" where
  "flag_given flag argv = (flag \<in> fst ` set (option_events argv \<lparr>optind = 1, optarg = []\<rparr>))"

definition scan_completes ::
  "(string \<Rightarrow> parse_error + 'd) \<Rightarrow> (string \<rightharpoonup> string) \<Rightarrow> 'd TritonServerParameters \<Rightarrow> string list \<Rightarrow> bool" where
  "scan_completes stod env lparams0 argv =
     (case before_parsing env (initial_state lparams0) of
        Inl e \<Rightarrow> False
      | Inr st0 \<Rightarrow>
          (case scan_options stod argv \<lparr>optind = 1, optarg = []\<rparr> st0 of
             Inl e \<Rightarrow> False
           | Inr (g, st) \<Rightarrow> length argv \<le> optind g))"



text \<open>
  The example parameter set with SageMaker enabled on port 8080, the allowed port range
  \<open>[8000, 8002]\<close> set for the other services, and HTTP on the given port; GRPC and
  metrics keep the ports 8001 and 8002. These are the services and ports that the tokens
  \<open>--allow-sagemaker=true --sagemaker-safe-port-range=8000-8002 --http-port=...\<close>
  configure.
\<close>

definition sagemaker_example :: "int \<Rightarrow> unit TritonServerParameters" where
  "sagemaker_example http =
     example_lparams\<lparr>http_port := http, allow_sagemaker := True,
       sagemaker_safe_range_set := True, sagemaker_safe_range := (8000, 8002)\<rparr>"

section \<open>Theorems\<close>

subsection \<open>Unfolding rules used by the examples\<close>

lemmas str_defs =
  str_find_def to_int_def to_size_def size_add_def size_sub_def substr_def substr_from_def
  bindE_def npos_def

lemmas num_defs =
  ParseOption_int_def ParseOption_uint64_def ParseOption_int64_def stoi_def stoull_def stoll_def
  strto_def split_sign_def isspace_def isdigit_def decimal_def digit_value_def

lemmas bool_defs = ParseOption_bool_def lowercase_def tolower_def

lemmas setter_defs =
  set_lparams_def set_lgrpc_options_def set_socket_def set_ssl_def set_keep_alive_def

lemmas scan_defs =
  getopt_long_def recognized_options_def mk_option_def has_arg_def ArgNone_def ArgBool_def
  ArgInt_def ArgFloat_def ArgStr_def switch_case_def option_ids

lemmas post_defs =
  post_parsing_def reset_poll_secs_def default_model_repository_def mask_metrics_def
  disable_trace_def override_strict_model_config_def

lemmas parse_defs =
  Parse_def before_parsing_def initial_state_def post_defs GetEnvironmentVariableOrDefault_def

lemmas example_defs = example_lparams_def example_stod_def example_env_def

subsection \<open>Sequencing\<close>

lemma bindE_Inr_iff: "bindE m f = Inr y \<longleftrightarrow> (\<exists>x. m = Inr x \<and> f x = Inr y)"
  by (cases m) (simp_all add: bindE_def)

lemma bindE_Inr [simp]: "bindE (Inr x) f = f x"
  by (simp add: bindE_def)

lemma bindE_Inl [simp]: "bindE (Inl e) f = Inl e"
  by (simp add: bindE_def)

subsection \<open>Typed value parsers\<close>

text \<open>
  Claim C9. Boolean parsing is case-insensitive: a string whose lower-case form is
  "true", "on" or "1" parses to true, one whose lower-case form is "false", "off" or "0"
  parses to false, and every other string is a format error.
\<close>

theorem ParseOption_bool_case_insensitive:
  "ParseOption_bool arg =
     (if lowercase arg \<in> {''true'', ''on'', ''1''} then Inr True
      else if lowercase arg \<in> {''false'', ''off'', ''0''} then Inr False
      else Inl (FormatError ''bool option'' arg))"
  by (simp add: ParseOption_bool_def Let_def)

theorem ParseOption_bool_case_insensitive_witness:
  "ParseOption_bool ''TRUE'' = Inr True \<and> ParseOption_bool ''On'' = Inr True \<and>
   ParseOption_bool ''1'' = Inr True \<and> ParseOption_bool ''False'' = Inr False \<and>
   ParseOption_bool ''oFF'' = Inr False \<and> ParseOption_bool ''0'' = Inr False \<and>
   ParseOption_bool ''yes'' = Inl (FormatError ''bool option'' ''yes'')"
  using ParseOption_bool_case_insensitive [of "''TRUE''"]
    ParseOption_bool_case_insensitive [of "''On''"]
    ParseOption_bool_case_insensitive [of "''1''"]
    ParseOption_bool_case_insensitive [of "''False''"]
    ParseOption_bool_case_insensitive [of "''oFF''"]
    ParseOption_bool_case_insensitive [of "''0''"]
    ParseOption_bool_case_insensitive [of "''yes''"]
  by (simp add: lowercase_def tolower_def)

text \<open>
  The lower-case form is what the claim takes it to be: \<open>tolower\<close> maps each capital
  letter to its small letter and leaves every other character alone, so the strings that
  parse to true are exactly the spellings of "true", "on" and "1" in any mix of cases.
\<close>

lemma lowercase_eq_Cons:
  "lowercase s = c # cs \<longleftrightarrow> (\<exists>x xs. s = x # xs \<and> tolower x = c \<and> lowercase xs = cs)"
  by (cases s) (auto simp: lowercase_def)

lemma lowercase_eq_Nil: "lowercase s = [] \<longleftrightarrow> s = []"
  by (simp add: lowercase_def)

lemma tolower_eq_iff:
  "tolower x = CHR ''t'' \<longleftrightarrow> x = CHR ''t'' \<or> x = CHR ''T''"
  "tolower x = CHR ''r'' \<longleftrightarrow> x = CHR ''r'' \<or> x = CHR ''R''"
  "tolower x = CHR ''u'' \<longleftrightarrow> x = CHR ''u'' \<or> x = CHR ''U''"
  "tolower x = CHR ''e'' \<longleftrightarrow> x = CHR ''e'' \<or> x = CHR ''E''"
  "tolower x = CHR ''o'' \<longleftrightarrow> x = CHR ''o'' \<or> x = CHR ''O''"
  "tolower x = CHR ''n'' \<longleftrightarrow> x = CHR ''n'' \<or> x = CHR ''N''"
  "tolower x = CHR ''1'' \<longleftrightarrow> x = CHR ''1''"
  by (auto simp: tolower_def split: if_splits)

lemma ParseOption_bool_true_iff:
  "ParseOption_bool arg = Inr True \<longleftrightarrow>
     (\<exists>t r u e. arg = [t, r, u, e] \<and> t \<in> {CHR ''t'', CHR ''T''} \<and> r \<in> {CHR ''r'', CHR ''R''} \<and>
        u \<in> {CHR ''u'', CHR ''U''} \<and> e \<in> {CHR ''e'', CHR ''E''}) \<or>
     (\<exists>o' n. arg = [o', n] \<and> o' \<in> {CHR ''o'', CHR ''O''} \<and> n \<in> {CHR ''n'', CHR ''N''}) \<or>
     arg = ''1''"
  by (auto simp: ParseOption_bool_def Let_def lowercase_eq_Cons lowercase_eq_Nil tolower_eq_iff)

text \<open>
  Claim C3. The claim says that \<open>parse<T>\<close> succeeds only on a complete literal and that
  \<open>parse<int>("12x")\<close> fails. The numeric specialisations call \<open>std::stoi\<close>,
  \<open>std::stoll\<close> and \<open>std::stoull\<close> without asking how many characters were read, so
  a valid numeric prefix is converted and the rest is ignored: \<open>"12x"\<close> yields 12 and
  \<open>"1.4"\<close> yields 1, the very result that the comment above \<open>ParseOption\<close> in the
  source says must be reported as an error.
\<close>

theorem ParseOption_numeric_accepts_trailing_garbage:
  "ParseOption_int ''12x'' = Inr 12 \<and> ParseOption_int ''1.4'' = Inr 1 \<and>
   ParseOption_int64 ''12x'' = Inr 12 \<and> ParseOption_uint64 ''12x'' = Inr 12"
  by (simp add: num_defs)

lemma ParseOption_int_complete_literal: "ParseOption_int ''12'' = Inr 12"
  by (simp add: num_defs)

subsection \<open>Compound parsers\<close>

lemma split_first_None: "split_first c s = None \<longleftrightarrow> c \<notin> set s"
  by (simp add: split_first_def)

lemma takeWhile_neq_hit: "c \<notin> set a \<Longrightarrow> takeWhile (\<lambda>x. x \<noteq> c) (a @ c # b) = a"
  by (induction a) auto

lemma dropWhile_neq_hit: "c \<notin> set a \<Longrightarrow> dropWhile (\<lambda>x. x \<noteq> c) (a @ c # b) = c # b"
  by (induction a) auto

lemma split_first_Some:
  "split_first c s = Some (a, b) \<longleftrightarrow> s = a @ c # b \<and> c \<notin> set a"
proof
  assume h: "split_first c s = Some (a, b)"
  then have m: "c \<in> set s" and a: "a = takeWhile (\<lambda>x. x \<noteq> c) s"
    and b: "b = tl (dropWhile (\<lambda>x. x \<noteq> c) s)"
    by (auto simp: split_first_def split: if_splits)
  from m have "dropWhile (\<lambda>x. x \<noteq> c) s \<noteq> []" by auto
  moreover from this have "hd (dropWhile (\<lambda>x. x \<noteq> c) s) = c"
    using hd_dropWhile [of "\<lambda>x. x \<noteq> c" s] by simp
  ultimately have "dropWhile (\<lambda>x. x \<noteq> c) s = c # b"
    using b by (cases "dropWhile (\<lambda>x. x \<noteq> c) s") auto
  then have "s = a @ c # b"
    using takeWhile_dropWhile_id [of "\<lambda>x. x \<noteq> c" s] a by simp
  moreover have "c \<notin> set a" using a by (auto dest: set_takeWhileD)
  ultimately show "s = a @ c # b \<and> c \<notin> set a" by simp
next
  assume "s = a @ c # b \<and> c \<notin> set a"
  then show "split_first c s = Some (a, b)"
    by (simp add: split_first_def takeWhile_neq_hit dropWhile_neq_hit)
qed

lemma find_at_char_hit: "c \<notin> set a \<Longrightarrow> find_at [c] (a @ c # b) k = Some (k + length a)"
  by (induction a arbitrary: k) auto

lemma find_at_char_miss: "c \<notin> set s \<Longrightarrow> find_at [c] s k = None"
  by (induction s arbitrary: k) auto

lemma str_find_hit:
  "c \<notin> set a \<Longrightarrow> str_find (p @ a @ c # b) [c] (length p) = length p + length a"
  by (simp add: str_find_def find_at_char_hit)

lemma str_find_miss:
  "c \<notin> set a \<Longrightarrow> str_find (p @ a) [c] (length p) = npos"
  by (simp add: str_find_def find_at_char_miss)

lemma str_find_hit0: "c \<notin> set a \<Longrightarrow> str_find (a @ c # b) [c] 0 = length a"
  using str_find_hit [of c a "[]" b] by simp

lemma str_find_miss0: "c \<notin> set a \<Longrightarrow> str_find a [c] 0 = npos"
  using str_find_miss [of c a "[]"] by simp

lemma to_int_npos: "to_int npos = - 1"
  by (simp add: to_int_def npos_def)

lemma to_int_small: "n < 2 ^ 31 \<Longrightarrow> to_int n = int n"
  by (simp add: to_int_def)

lemma to_size_nat: "0 \<le> i \<Longrightarrow> i < 2 ^ 64 \<Longrightarrow> to_size i = nat i"
  by (simp add: to_size_def)

lemma setting_value_miss:
  assumes "CHR ''='' \<notin> set rest" "length (p @ rest) < 2 ^ 31"
  shows "to_int (str_find (p @ rest) ''='' (length p)) = - 1"
  using assms by (simp add: str_find_miss to_int_npos)

lemma setting_value_hit:
  assumes "CHR ''='' \<notin> set k" "length (p @ k @ CHR ''='' # v) < 2 ^ 31"
  shows "to_int (str_find (p @ k @ CHR ''='' # v) ''='' (length p)) = int (length p) + int (length k)"
  using assms by (simp add: str_find_hit to_int_small)

lemma substr_mid: "substr (p @ k @ r) (length p) (length k) = Inr k"
  by (simp add: substr_def)

lemma substr_from_tail: "substr_from (p @ r) (length p) = Inr r"
  by (simp add: substr_from_def)

lemma substr_head: "substr (g @ r) 0 (length g) = Inr g"
  by (simp add: substr_def)

lemma ParseCacheConfigOption_no_comma:
  assumes "CHR '','' \<notin> set arg"
  shows "ParseCacheConfigOption arg = Inl (FormatError ''--cache-config: no cache specified'' arg)"
  using assms by (simp add: ParseCacheConfigOption_def Let_def str_find_miss0 to_int_npos)

lemma ParseCacheConfigOption_comma:
  assumes c: "CHR '','' \<notin> set g" and len: "length (g @ CHR '','' # rest) < 2 ^ 31"
  shows "ParseCacheConfigOption (g @ CHR '','' # rest) =
     (if g = [] then Inl (FormatError ''--cache-config: no cache specified'' (g @ CHR '','' # rest))
      else case split_first CHR ''='' rest of
             None \<Rightarrow> Inl (FormatError ''--cache-config'' (g @ CHR '','' # rest))
           | Some (k, v) \<Rightarrow>
               if k = [] \<or> v = [] then Inl (FormatError ''--cache-config'' (g @ CHR '','' # rest))
               else Inr (g, k, v))"
proof -
  let ?arg = "g @ CHR '','' # rest"
  let ?p = "g @ [CHR '','']"
  have dn: "to_int (str_find ?arg '','' 0) = int (length g)"
    using c len by (simp add: str_find_hit0 to_int_small)
  have ts: "to_size (int (length g) + 1) = length ?p" "to_size (int (length g)) = length g"
    using len by (simp_all add: to_size_nat)
  have arg: "?arg = ?p @ rest" by simp
  show ?thesis
  proof (cases "split_first CHR ''='' rest")
    case None
    then have "CHR ''='' \<notin> set rest" by (simp add: split_first_None)
    from setting_value_miss [OF this, of ?p] len
    have "to_int (str_find ?arg ''='' (length ?p)) = - 1" by simp
    with None dn ts show ?thesis
      by (simp add: ParseCacheConfigOption_def Let_def substr_head del: append.simps length_append)
  next
    case (Some kv)
    obtain k v where kv: "kv = (k, v)" by (cases kv)
    with Some have r: "rest = k @ CHR ''='' # v" and nk: "CHR ''='' \<notin> set k"
      by (simp_all add: split_first_Some)
    from setting_value_hit [OF nk, of ?p v] len r
    have ds: "to_int (str_find ?arg ''='' (length ?p)) = int (length ?p) + int (length k)" by simp
    have s1: "substr ?arg (length ?p) (length k) = Inr k"
      using substr_mid [of ?p k "CHR ''='' # v"] r by simp
    have s2: "substr_from ?arg (length ?p + length k + 1) = Inr v"
      using substr_from_tail [of "?p @ k @ [CHR ''='']" v] r by simp
    have t1: "to_size (int (length ?p) + int (length k) - int (length g) - 1) = length k"
      using len r by (simp add: to_size_nat)
    have t2: "to_size (int (length ?p) + int (length k) + 1) = length ?p + length k + 1"
      using len r by (simp add: to_size_nat)
    show ?thesis
      using Some kv dn ts ds s1 s2 t1 t2 substr_head [of g "CHR '','' # rest"]
      by (simp add: ParseCacheConfigOption_def Let_def del: append.simps length_append)
  qed
qed


lemma ParseHostPolicyOption_no_comma:
  assumes "CHR '','' \<notin> set arg"
  shows "ParseHostPolicyOption arg = Inl (FormatError ''--host-policy'' arg)"
  using assms by (simp add: ParseHostPolicyOption_def Let_def str_find_miss0 to_int_npos)

lemma ParseHostPolicyOption_comma:
  assumes c: "CHR '','' \<notin> set g" and len: "length (g @ CHR '','' # rest) < 2 ^ 31"
  shows "ParseHostPolicyOption (g @ CHR '','' # rest) =
     (case split_first CHR ''='' rest of
        None \<Rightarrow> Inl (FormatError ''--host-policy'' (g @ CHR '','' # rest))
      | Some (k, v) \<Rightarrow>
          if g = [] \<or> k = [] \<or> v = [] then Inl (FormatError ''--host-policy'' (g @ CHR '','' # rest))
          else Inr (g, k, v))"
proof -
  let ?arg = "g @ CHR '','' # rest"
  let ?p = "g @ [CHR '','']"
  have dn: "to_int (str_find ?arg '','' 0) = int (length g)"
    using c len by (simp add: str_find_hit0 to_int_small)
  have ts: "to_size (int (length g) + 1) = length ?p" "to_size (int (length g)) = length g"
    using len by (simp_all add: to_size_nat)
  show ?thesis
  proof (cases "split_first CHR ''='' rest")
    case None
    then have "CHR ''='' \<notin> set rest" by (simp add: split_first_None)
    from setting_value_miss [OF this, of ?p] len
    have "to_int (str_find ?arg ''='' (length ?p)) = - 1" by simp
    with None dn ts show ?thesis
      by (simp add: ParseHostPolicyOption_def Let_def del: append.simps length_append)
  next
    case (Some kv)
    obtain k v where kv: "kv = (k, v)" by (cases kv)
    with Some have r: "rest = k @ CHR ''='' # v" and nk: "CHR ''='' \<notin> set k"
      by (simp_all add: split_first_Some)
    from setting_value_hit [OF nk, of ?p v] len r
    have ds: "to_int (str_find ?arg ''='' (length ?p)) = int (length ?p) + int (length k)" by simp
    have s1: "substr ?arg (length ?p) (length k) = Inr k"
      using substr_mid [of ?p k "CHR ''='' # v"] r by simp
    have s2: "substr_from ?arg (length ?p + length k + 1) = Inr v"
      using substr_from_tail [of "?p @ k @ [CHR ''='']" v] r by simp
    have t1: "to_size (int (length ?p) + int (length k) - int (length g) - 1) = length k"
      using len r by (simp add: to_size_nat)
    have t2: "to_size (int (length ?p) + int (length k) + 1) = length ?p + length k + 1"
      using len r by (simp add: to_size_nat)
    show ?thesis
      using Some kv dn ts ds s1 s2 t1 t2 substr_head [of g "CHR '','' # rest"]
      by (simp add: ParseHostPolicyOption_def Let_def del: append.simps length_append)
  qed
qed

lemma ParseBackendConfigOption_comma:
  assumes c: "CHR '','' \<notin> set g" and len: "length (g @ CHR '','' # rest) < 2 ^ 31"
  shows "ParseBackendConfigOption (g @ CHR '','' # rest) =
     (if g = []
      then Inl (FormatError ''--backend-config: no backend specified'' (g @ CHR '','' # rest))
      else case split_first CHR ''='' rest of
             None \<Rightarrow> Inl (FormatError ''--backend-config'' (g @ CHR '','' # rest))
           | Some (k, v) \<Rightarrow>
               if k = [] \<or> v = [] then Inl (FormatError ''--backend-config'' (g @ CHR '','' # rest))
               else Inr (g, k, v))"
proof -
  let ?arg = "g @ CHR '','' # rest"
  let ?p = "g @ [CHR '','']"
  have dn: "to_int (str_find ?arg '','' 0) = int (length g)"
    using c len by (simp add: str_find_hit0 to_int_small)
  have ts: "to_size (int (length g) + 1) = length ?p" "to_size (int (length g)) = length g"
    using len by (simp_all add: to_size_nat)
  show ?thesis
  proof (cases "split_first CHR ''='' rest")
    case None
    then have "CHR ''='' \<notin> set rest" by (simp add: split_first_None)
    from setting_value_miss [OF this, of ?p] len
    have "to_int (str_find ?arg ''='' (length ?p)) = - 1" by simp
    with None dn ts show ?thesis
      using substr_head [of g "CHR '','' # rest"]
      by (simp add: ParseBackendConfigOption_def Let_def del: append.simps length_append)
  next
    case (Some kv)
    obtain k v where kv: "kv = (k, v)" by (cases kv)
    with Some have r: "rest = k @ CHR ''='' # v" and nk: "CHR ''='' \<notin> set k"
      by (simp_all add: split_first_Some)
    from setting_value_hit [OF nk, of ?p v] len r
    have ds: "to_int (str_find ?arg ''='' (length ?p)) = int (length ?p) + int (length k)" by simp
    have s1: "substr ?arg (length ?p) (length k) = Inr k"
      using substr_mid [of ?p k "CHR ''='' # v"] r by simp
    have s2: "substr_from ?arg (length ?p + length k + 1) = Inr v"
      using substr_from_tail [of "?p @ k @ [CHR ''='']" v] r by simp
    have t1: "to_size (int (length ?p) + int (length k) - int (length g) - 1) = length k"
      using len r by (simp add: to_size_nat)
    have t2: "to_size (int (length ?p) + int (length k) + 1) = length ?p + length k + 1"
      using len r by (simp add: to_size_nat)
    show ?thesis
      using Some kv dn ts ds s1 s2 t1 t2 substr_head [of g "CHR '','' # rest"]
      by (simp add: ParseBackendConfigOption_def Let_def del: append.simps length_append)
  qed
qed

lemma ParseBackendConfigOption_no_comma:
  assumes c: "CHR '','' \<notin> set arg" and len: "length arg < 2 ^ 31"
  shows "ParseBackendConfigOption arg =
     (case split_first CHR ''='' arg of
        None \<Rightarrow> Inl (FormatError ''--backend-config'' arg)
      | Some (k, v) \<Rightarrow>
          if k = [] \<or> v = [] then Inl (FormatError ''--backend-config'' arg)
          else Inr ([], k, v))"
proof -
  have dn: "to_int (str_find arg '','' 0) = - 1"
    using c by (simp add: str_find_miss0 to_int_npos)
  have ts: "to_size (- 1 + 1) = 0" by (simp add: to_size_def)
  show ?thesis
  proof (cases "split_first CHR ''='' arg")
    case None
    then have "CHR ''='' \<notin> set arg" by (simp add: split_first_None)
    then have "to_int (str_find arg ''='' 0) = - 1"
      by (simp add: str_find_miss0 to_int_npos)
    with None dn ts show ?thesis
      by (simp add: ParseBackendConfigOption_def Let_def)
  next
    case (Some kv)
    obtain k v where kv: "kv = (k, v)" by (cases kv)
    with Some have r: "arg = k @ CHR ''='' # v" and nk: "CHR ''='' \<notin> set k"
      by (simp_all add: split_first_Some)
    have ds: "to_int (str_find arg ''='' 0) = int (length k)"
      using nk len r by (simp add: str_find_hit0 to_int_small)
    have s1: "substr arg 0 (length k) = Inr k"
      using substr_head [of k "CHR ''='' # v"] r by simp
    have s2: "substr_from arg (length k + 1) = Inr v"
      using substr_from_tail [of "k @ [CHR ''='']" v] r by simp
    have t1: "to_size (int (length k) - - 1 - 1) = length k"
      using len r by (simp add: to_size_nat)
    have t2: "to_size (int (length k) + 1) = length k + 1"
      using len r by (simp add: to_size_nat)
    show ?thesis
      using Some kv dn ts ds s1 s2 t1 t2
      by (simp add: ParseBackendConfigOption_def Let_def)
  qed
qed

text \<open>
  Claim C4, as amended. For a string shorter than \<open>2^31\<close> characters (positions are
  stored in an \<open>int\<close>): the cache-setting and the host-policy parser follow the format
  \<open>group,key=value\<close> of the specification: they return the triple where the
  specification defines one and throw a format error otherwise, in particular when there
  is no comma or the comma is at position 0. The backend-setting parser does the same on a
  string that contains a comma. On a string without a comma it does not fail for that
  reason: it reads the whole string as \<open>key=value\<close> and returns an empty group name,
  and it throws a format error only if there is no \<open>=\<close> or the key or the value is
  empty.
\<close>

theorem named_setting_parsers:
  assumes len: "length raw < 2 ^ 31"
  shows "agrees_with_named_setting_spec ParseCacheConfigOption raw \<and>
         agrees_with_named_setting_spec ParseHostPolicyOption raw \<and>
         (if CHR '','' \<in> set raw then agrees_with_named_setting_spec ParseBackendConfigOption raw
          else ParseBackendConfigOption raw =
                 (case split_first CHR ''='' raw of
                    None \<Rightarrow> Inl (FormatError ''--backend-config'' raw)
                  | Some (k, v) \<Rightarrow>
                      if k = [] \<or> v = [] then Inl (FormatError ''--backend-config'' raw)
                      else Inr ([], k, v)))"
proof (cases "split_first CHR '','' raw")
  case None
  then have nc: "CHR '','' \<notin> set raw" by (simp add: split_first_None)
  have "named_setting_spec raw = None" using None by (simp add: named_setting_spec_def)
  then show ?thesis
    using nc ParseCacheConfigOption_no_comma [OF nc] ParseHostPolicyOption_no_comma [OF nc]
      ParseBackendConfigOption_no_comma [OF nc len]
    by (simp add: agrees_with_named_setting_spec_def is_format_error_def)
next
  case (Some gr)
  obtain g rest where gr: "gr = (g, rest)" by (cases gr)
  with Some have raw: "raw = g @ CHR '','' # rest" and ng: "CHR '','' \<notin> set g"
    by (simp_all add: split_first_Some)
  have len': "length (g @ CHR '','' # rest) < 2 ^ 31" using len raw by simp
  have yes: "CHR '','' \<in> set raw" using raw by simp
  show ?thesis
    unfolding raw
    using Some gr raw yes ParseCacheConfigOption_comma [OF ng len']
      ParseHostPolicyOption_comma [OF ng len'] ParseBackendConfigOption_comma [OF ng len']
    by (auto simp: agrees_with_named_setting_spec_def named_setting_spec_def is_format_error_def
        split: option.splits simp del: append.simps)
qed

theorem named_setting_parsers_witness:
  "length ''local,size=1048576'' < (2::nat) ^ 31 \<and>
   ParseCacheConfigOption ''local,size=1048576'' = Inr (''local'', ''size'', ''1048576'') \<and>
   ParseHostPolicyOption ''local,size=1048576'' = Inr (''local'', ''size'', ''1048576'') \<and>
   ParseBackendConfigOption ''local,size=1048576'' = Inr (''local'', ''size'', ''1048576'')"
proof -
  have h: "length ''local,size=1048576'' < (2::nat) ^ 31" by simp
  have s: "named_setting_spec ''local,size=1048576'' = Some (''local'', ''size'', ''1048576'')"
    by (simp add: named_setting_spec_def split_first_def)
  from named_setting_parsers [OF h] h s show ?thesis
    by (simp add: agrees_with_named_setting_spec_def)
qed

text \<open>
  Claim C4 as stated fails for the backend-setting parser: \<open>a=b\<close> has no comma and is
  accepted, with an empty group name.
\<close>

theorem backend_config_without_comma_accepted:
  "ParseBackendConfigOption ''a=b'' = Inr ([], ''a'', ''b'')"
  by (simp add: ParseBackendConfigOption_def Let_def str_find_def to_int_def to_size_def npos_def
      substr_def substr_from_def)

lemma fields_not_Nil: "fields c s \<noteq> []"
  by (induction s) (auto split: list.splits)

lemma fields_miss: "c \<notin> set s \<Longrightarrow> fields c s = [s]"
  by (induction s) auto

lemma fields_hit: "c \<notin> set a \<Longrightarrow> fields c (a @ c # r) = a # fields c r"
  by (induction a) (auto simp: fields_not_Nil split: list.splits)

lemma split_cases:
  fixes c :: char and s :: string
  obtains (miss) "c \<notin> set s" | (hit) a r where "s = a @ c # r" "c \<notin> set a"
proof (cases "split_first c s")
  case None
  then show ?thesis using miss by (simp add: split_first_None)
next
  case (Some ar)
  then show ?thesis using hit by (cases ar) (simp add: split_first_Some)
qed

lemma size_add_small: "a + b < 2 ^ 64 \<Longrightarrow> size_add a b = a + b"
  by (simp add: size_add_def)

lemma size_add_npos: "size_add npos 1 = 0" "size_add npos (Suc 0) = 0"
  by (simp_all add: size_add_def npos_def)

lemma size_sub_small:
  assumes "b \<le> a" "a < 2 ^ 64"
  shows "size_sub a b = a - b"
proof -
  from assms(1) obtain d where d: "a = b + d" by (auto simp: le_iff_add)
  with assms(2) have "d < 2 ^ 64" by simp
  then show ?thesis by (simp add: size_sub_def d)
qed

text \<open>
  Claim C6. The rate-limit resource parser is the colon-delimited format of the
  specification: \<open>name:count\<close> yields \<open>(name, count, -1)\<close>, \<open>name:count:device\<close>
  yields \<open>(name, count, device)\<close>, count and device being converted by the integer
  parser, and a string with no colon or with three or more colons is a format error. The
  bound on the length keeps the positions below \<open>npos\<close>.
\<close>

theorem ParseRateLimiterResourceOption_fields:
  assumes len: "length raw < 2 ^ 63"
  shows "ParseRateLimiterResourceOption raw = rate_limit_resource_spec raw"
proof (cases rule: split_cases [of "CHR '':''" raw])
  case miss
  then show ?thesis
    by (simp add: ParseRateLimiterResourceOption_def rate_limit_resource_spec_def Let_def
        str_find_miss0 size_add_npos fields_miss)
next
  case (hit a r1)
  let ?p1 = "a @ [CHR '':'']"
  have df: "str_find raw '':'' 0 = length a"
    using hit by (simp add: str_find_hit0)
  have a1: "size_add (length a) 1 = length ?p1"
    using len hit by (simp add: size_add_small)
  have la: "length a < npos" using len hit by (simp add: npos_def)
  have n1: "substr raw 0 (length a) = Inr a"
    using substr_head [of a "CHR '':'' # r1"] hit by simp
  show ?thesis
  proof (cases rule: split_cases [of "CHR '':''" r1])
    case miss
    have ds: "str_find raw '':'' (length ?p1) = npos"
      using str_find_miss [OF miss, of ?p1] hit by simp
    have c1: "substr_from raw (length ?p1) = Inr r1"
      using substr_from_tail [of ?p1 r1] hit by simp
    have f: "fields CHR '':'' raw = [a, r1]"
      using hit miss by (simp add: fields_hit fields_miss)
    show ?thesis
      using df a1 ds la n1 c1 f
      by (simp add: ParseRateLimiterResourceOption_def rate_limit_resource_spec_def Let_def
          del: append.simps length_append)
  next
    case (hit b r2)
    note hit2 = hit
    let ?p2 = "?p1 @ b @ [CHR '':'']"
    have raw: "raw = ?p1 @ b @ CHR '':'' # r2" using \<open>raw = a @ CHR '':'' # r1\<close> hit2 by simp
    have ds: "str_find raw '':'' (length ?p1) = length ?p1 + length b"
      using str_find_hit [OF hit2(2), of ?p1 r2] raw by simp
    have a2: "size_add (length ?p1 + length b) 1 = length ?p2"
      using len raw by (simp add: size_add_small)
    have ls: "length ?p1 + length b \<noteq> npos" using len raw by (simp add: npos_def)
    have sb: "size_sub (size_sub (length ?p1 + length b) (length a)) 1 = length b"
      using len raw by (simp add: size_sub_small)
    have c1: "substr raw (length ?p1) (length b) = Inr b"
      using substr_mid [of ?p1 b "CHR '':'' # r2"] raw by simp
    have d1: "substr_from raw (length ?p2) = Inr r2"
      using substr_from_tail [of ?p2 r2] raw by simp
    have f0: "fields CHR '':'' raw = a # b # fields CHR '':'' r2"
      using \<open>raw = a @ CHR '':'' # r1\<close> \<open>CHR '':'' \<notin> set a\<close> hit2 by (simp add: fields_hit)
    show ?thesis
    proof (cases rule: split_cases [of "CHR '':''" r2])
      case miss
      have dt: "str_find raw '':'' (length ?p2) = npos"
        using str_find_miss [OF miss, of ?p2] raw by simp
      have f: "fields CHR '':'' raw = [a, b, r2]"
        using f0 miss by (simp add: fields_miss)
      show ?thesis
        using df a1 ds a2 ls sb la n1 c1 d1 dt f
        by (simp add: ParseRateLimiterResourceOption_def rate_limit_resource_spec_def Let_def
            del: append.simps length_append)
    next
      case (hit c r3)
      have raw3: "raw = ?p2 @ c @ CHR '':'' # r3" using raw hit by simp
      have dt: "str_find raw '':'' (length ?p2) = length ?p2 + length c"
        using str_find_hit [OF hit(2), of ?p2 r3] raw3 by simp
      have lt: "length ?p2 + length c \<noteq> npos" using len raw3 by (simp add: npos_def)
      have f: "fields CHR '':'' raw = a # b # c # fields CHR '':'' r3"
        using f0 hit by (simp add: fields_hit)
      obtain x xs where fx: "fields CHR '':'' r3 = x # xs"
        using fields_not_Nil [of "CHR '':''" r3] by (cases "fields CHR '':'' r3") auto
      show ?thesis
        using df a1 ds a2 ls dt lt f fx
        by (simp add: ParseRateLimiterResourceOption_def rate_limit_resource_spec_def Let_def
            del: append.simps length_append)
    qed
  qed
qed

theorem ParseRateLimiterResourceOption_fields_witness:
  "length ''GPU_UTIL:4'' < (2::nat) ^ 63 \<and>
   ParseRateLimiterResourceOption ''GPU_UTIL:4'' = Inr (''GPU_UTIL'', 4, - 1) \<and>
   ParseRateLimiterResourceOption ''GPU_UTIL:4:0'' = Inr (''GPU_UTIL'', 4, 0) \<and>
   ParseRateLimiterResourceOption ''GPU_UTIL:4:0:1'' =
     Inl (FormatError ''--rate-limit-resource'' ''GPU_UTIL:4:0:1'') \<and>
   ParseRateLimiterResourceOption ''GPU_UTIL'' = Inl (FormatError ''--rate-limit-resource'' ''GPU_UTIL'')"
proof -
  have h: "length ''GPU_UTIL:4'' < (2::nat) ^ 63" "length ''GPU_UTIL:4:0'' < (2::nat) ^ 63"
    "length ''GPU_UTIL:4:0:1'' < (2::nat) ^ 63" "length ''GPU_UTIL'' < (2::nat) ^ 63"
    by simp_all
  show ?thesis
    using h(1) ParseRateLimiterResourceOption_fields [OF h(1)]
      ParseRateLimiterResourceOption_fields [OF h(2)]
      ParseRateLimiterResourceOption_fields [OF h(3)]
      ParseRateLimiterResourceOption_fields [OF h(4)]
    by (simp add: rate_limit_resource_spec_def ParseOption_int_def stoi_def strto_def
        split_sign_def isspace_def isdigit_def decimal_def digit_value_def)
qed

subsection \<open>Port collision check\<close>

lemma compare_ports_None_iff:
  "compare_ports a b = None \<longleftrightarrow> get1 a \<noteq> get1 b \<or> (\<not> outside_range_of a b \<and> \<not> same_port a b)"
  by (auto simp: compare_ports_def outside_range_of_def same_port_def)


lemma inner_loop_Inr_iff:
  "inner_loop ports i js = Inr u \<longleftrightarrow>
     (\<forall>j \<in> set js. j \<noteq> i \<longrightarrow> compare_ports (ports ! i) (ports ! j) = None)"
  by (induction js) (auto split: option.splits)


lemma outer_loop_Cons_Inr:
  "outer_loop ports (i # is) = Inr u \<longleftrightarrow>
     inner_loop ports i (comparing_from ports i) = Inr () \<and> outer_loop ports is = Inr u"
  by (cases "inner_loop ports i (comparing_from ports i)") simp_all

lemma outer_loop_Inr_iff:
  "outer_loop ports is = Inr u \<longleftrightarrow>
     (\<forall>i \<in> set is. \<forall>j \<in> set (comparing_from ports i). j \<noteq> i \<longrightarrow>
        compare_ports (ports ! i) (ports ! j) = None)"
proof (induction "is")
  case Nil
  show ?case by simp
next
  case (Cons i "is")
  show ?case
    unfolding outer_loop_Cons_Inr Cons.IH inner_loop_Inr_iff by simp
qed


lemma set_comparing_from:
  "i < length ports \<Longrightarrow>
   set (comparing_from ports i) = {j. j < length ports \<and> (get3 (ports ! i) \<or> i < j)}"
  by (auto simp: comparing_from_def)

lemma clash_sym: "clash a b = clash b a"
  by (auto simp: clash_def same_port_def)

lemma clash_refl: "clash a a"
  by (simp add: clash_def same_port_def)

lemma pair_checked:
  "((get3 a \<or> lt) \<longrightarrow> compare_ports a b = None) \<and> ((get3 b \<or> \<not> lt) \<longrightarrow> compare_ports b a = None)
     \<longleftrightarrow> \<not> clash a b"
  by (auto simp: compare_ports_None_iff clash_def outside_range_of_def same_port_def)

lemma check_ports_Inr_iff:
  "check_ports ports = Inr u \<longleftrightarrow>
     (\<forall>i < length ports. \<forall>j < length ports. i \<noteq> j \<longrightarrow> \<not> clash (ports ! i) (ports ! j))"
  (is "?L \<longleftrightarrow> ?R")
proof
  assume L: ?L
  show ?R
  proof (intro allI impI)
    fix i j assume i: "i < length ports" and j: "j < length ports" and ne: "i \<noteq> j"
    from L have all: "\<And>i j. i < length ports \<Longrightarrow> j < length ports \<Longrightarrow> j \<noteq> i \<Longrightarrow>
        get3 (ports ! i) \<or> i < j \<Longrightarrow> compare_ports (ports ! i) (ports ! j) = None"
      by (simp add: check_ports_def outer_loop_Inr_iff set_comparing_from)
    have "((get3 (ports ! i) \<or> i < j) \<longrightarrow> compare_ports (ports ! i) (ports ! j) = None) \<and>
          ((get3 (ports ! j) \<or> \<not> i < j) \<longrightarrow> compare_ports (ports ! j) (ports ! i) = None)"
      using all [OF i j] all [OF j i] ne by auto
    then show "\<not> clash (ports ! i) (ports ! j)"
      using pair_checked [of "ports ! i" "i < j" "ports ! j"] by simp
  qed
next
  assume R: ?R
  have "compare_ports (ports ! i) (ports ! j) = None"
    if "i < length ports" "j < length ports" "j \<noteq> i" for i j
  proof -
    from R that have "\<not> clash (ports ! i) (ports ! j)" by auto
    then show ?thesis
      by (auto simp: compare_ports_None_iff clash_def)
  qed
  then show ?L
    by (simp add: check_ports_def outer_loop_Inr_iff set_comparing_from)
qed







lemmas port_defs =
  CheckPortCollision_def enabled_ports_def check_ports_def check_trace_def comparing_from_def
  compare_ports_def times_compared_def sagemaker_example_def example_lparams_def


lemma CheckPortCollision_examples:
  "CheckPortCollision example_lparams = Inr ()"
  "CheckPortCollision (example_lparams\<lparr>http_port := 8001\<rparr>) =
     Inl (PortConflict ''HTTP'' ''GRPC'' ''0.0.0.0'' 8001)"
  "CheckPortCollision (sagemaker_example 8005) = Inl (PortRangeViolation ''HTTP'' 8005 8000 8002)"
  "CheckPortCollision (sagemaker_example 8000) = Inr ()"
  "CheckPortCollision (sagemaker_example 8080) =
     Inl (PortConflict ''HTTP'' ''SageMaker'' ''0.0.0.0'' 8080)"
  by (simp_all add: port_defs upt_rec)



lemma inner_trace_snd:
  "snd (inner_trace ports i js) = (case inner_loop ports i js of Inl e \<Rightarrow> Some e | Inr u \<Rightarrow> None)"
  by (induction js) (auto split: option.splits prod.splits)

lemma inner_trace_pass:
  "inner_loop ports i js = Inr u \<Longrightarrow> fst (inner_trace ports i js) = inner_schedule i js"
  by (induction js) (auto simp: inner_schedule_def split: option.splits prod.splits)

lemma inner_trace_prefix:
  "\<exists>rest. inner_schedule i js = fst (inner_trace ports i js) @ rest"
  by (induction js) (auto simp: inner_schedule_def split: option.splits prod.splits)

lemma outer_trace_snd:
  "snd (outer_trace ports is) = (case outer_loop ports is of Inl e \<Rightarrow> Some e | Inr u \<Rightarrow> None)"
proof (induction "is")
  case Nil
  show ?case by simp
next
  case (Cons i "is")
  from inner_trace_snd [of ports i "comparing_from ports i"] Cons.IH show ?case
    by (cases "inner_trace ports i (comparing_from ports i)")
       (auto split: option.splits prod.splits sum.splits)
qed

lemma outer_trace_pass:
  "outer_loop ports is = Inr u \<Longrightarrow>
     fst (outer_trace ports is) = concat (map (\<lambda>i. inner_schedule i (comparing_from ports i)) is)"
proof (induction "is")
  case Nil
  show ?case by simp
next
  case (Cons i "is")
  from Cons.prems [unfolded outer_loop_Cons_Inr]
  have a: "inner_loop ports i (comparing_from ports i) = Inr ()"
    and b: "outer_loop ports is = Inr u" by simp_all
  from inner_trace_snd [of ports i "comparing_from ports i"] a
  have "snd (inner_trace ports i (comparing_from ports i)) = None" by simp
  with inner_trace_pass [OF a] Cons.IH [OF b] show ?case
    by (cases "inner_trace ports i (comparing_from ports i)") (auto split: prod.splits)
qed

lemma outer_trace_prefix:
  "\<exists>rest. concat (map (\<lambda>i. inner_schedule i (comparing_from ports i)) is) =
            fst (outer_trace ports is) @ rest"
proof (induction "is")
  case Nil
  show ?case by simp
next
  case (Cons i "is")
  obtain r1 where r1: "inner_schedule i (comparing_from ports i) =
      fst (inner_trace ports i (comparing_from ports i)) @ r1"
    using inner_trace_prefix by blast
  from Cons.IH obtain r2 where r2:
    "concat (map (\<lambda>i. inner_schedule i (comparing_from ports i)) is) = fst (outer_trace ports is) @ r2"
    by blast
  show ?case
  proof (cases "snd (inner_trace ports i (comparing_from ports i))")
    case None
    then have "inner_loop ports i (comparing_from ports i) = Inr ()"
      using inner_trace_snd [of ports i "comparing_from ports i"] by (auto split: sum.splits)
    from inner_trace_pass [OF this] None r2 show ?thesis
      by (cases "inner_trace ports i (comparing_from ports i)") (auto split: prod.splits)
  next
    case (Some e)
    with r1 show ?thesis
      by (cases "inner_trace ports i (comparing_from ports i)") auto
  qed
qed

lemma check_trace_snd:
  "snd (check_trace ports) = (case check_ports ports of Inl e \<Rightarrow> Some e | Inr u \<Rightarrow> None)"
  by (simp add: check_trace_def check_ports_def outer_trace_snd)

lemma check_trace_pass: "check_ports ports = Inr u \<Longrightarrow> fst (check_trace ports) = schedule ports"
  by (simp add: check_trace_def check_ports_def schedule_def outer_trace_pass)

lemma check_trace_prefix: "\<exists>rest. schedule ports = fst (check_trace ports) @ rest"
  by (simp add: check_trace_def schedule_def outer_trace_prefix)

lemma count_list_concat_map:
  "count_list (concat (map f xs)) x = sum_list (map (\<lambda>y. count_list (f y) x) xs)"
  by (induction xs) simp_all

lemma count_list_upt: "count_list [a..<b] j = (if a \<le> j \<and> j < b then 1 else 0)"
  by (induction b) auto

lemma count_list_filter: "count_list (filter P xs) x = (if P x then count_list xs x else 0)"
  by (induction xs) auto

lemma count_list_map_Pair:
  "count_list (map (Pair i') xs) (i, j) = (if i = i' then count_list xs j else 0)"
  by (induction xs) auto

lemma count_inner_schedule:
  "count_list (inner_schedule i' js) (i, j) = (if i = i' \<and> j \<noteq> i then count_list js j else 0)"
  by (simp add: inner_schedule_def count_list_map_Pair count_list_filter)

lemma sum_list_delta_upt:
  "sum_list (map (\<lambda>k. if i = k then f k else 0) [0..<n]) = (if i < n then f i else (0::nat))"
  by (induction n) auto

lemma count_schedule:
  "count_list (schedule ports) (i, j) =
     (if i < length ports \<and> j < length ports \<and> i \<noteq> j \<and> (get3 (ports ! i) \<or> i < j) then 1 else 0)"
proof -
  have "count_list (schedule ports) (i, j) =
        sum_list (map (\<lambda>k. if i = k then (if j \<noteq> k then count_list (comparing_from ports k) j else 0) else 0)
                   [0..<length ports])"
    unfolding schedule_def count_list_concat_map count_inner_schedule
    by (intro arg_cong [where f = sum_list] map_cong) auto
  also have "\<dots> = (if i < length ports then (if j \<noteq> i then count_list (comparing_from ports i) j else 0) else 0)"
    by (rule sum_list_delta_upt)
  also have "\<dots> = (if i < length ports \<and> j < length ports \<and> i \<noteq> j \<and> (get3 (ports ! i) \<or> i < j) then 1 else 0)"
    by (auto simp: comparing_from_def count_list_upt)
  finally show ?thesis .
qed

lemma no_clash_iff_distinct:
  "(\<forall>i < length xs. \<forall>j < length xs. i \<noteq> j \<longrightarrow> \<not> clash (xs ! i) (xs ! j)) \<longleftrightarrow>
   distinct xs \<and> (\<forall>a \<in> set xs. \<forall>b \<in> set xs. a \<noteq> b \<longrightarrow> \<not> clash a b)"
  (is "?L \<longleftrightarrow> ?R")
proof
  assume L: ?L
  have "distinct xs"
    unfolding distinct_conv_nth
  proof (intro allI impI)
    fix i j assume "i < length xs" "j < length xs" "i \<noteq> j"
    with L have "\<not> clash (xs ! i) (xs ! j)" by blast
    then show "xs ! i \<noteq> xs ! j" using clash_refl [of "xs ! i"] by auto
  qed
  moreover have "\<not> clash a b" if "a \<in> set xs" "b \<in> set xs" "a \<noteq> b" for a b
  proof -
    from that obtain i j where "i < length xs" "j < length xs" "xs ! i = a" "xs ! j = b"
      by (auto simp: in_set_conv_nth)
    with that(3) L show ?thesis by auto
  qed
  ultimately show ?R by blast
next
  assume R: ?R
  show ?L
  proof (intro allI impI)
    fix i j assume "i < length xs" "j < length xs" "i \<noteq> j"
    with R have "xs ! i \<noteq> xs ! j" by (simp add: nth_eq_iff_index_eq)
    with R \<open>i < length xs\<close> \<open>j < length xs\<close> show "\<not> clash (xs ! i) (xs ! j)" by simp
  qed
qed

lemma check_ports_permutation:
  assumes "mset ports' = mset ports"
  shows "(check_ports ports' = Inr ()) = (check_ports ports = Inr ())"
proof -
  from assms have "set ports' = set ports" by (rule mset_eq_setD)
  moreover from assms have "distinct ports' = distinct ports" by (rule mset_eq_imp_distinct_iff)
  ultimately show ?thesis
    by (simp add: check_ports_Inr_iff no_clash_iff_distinct)
qed

lemma check_trace_within_schedule:
  "set (fst (check_trace ports)) \<subseteq> set (schedule ports)"
  "count_list (fst (check_trace ports)) x \<le> count_list (schedule ports) x"
proof -
  obtain rest where r: "schedule ports = fst (check_trace ports) @ rest"
    using check_trace_prefix by blast
  show "set (fst (check_trace ports)) \<subseteq> set (schedule ports)" by (simp add: r)
  show "count_list (fst (check_trace ports)) x \<le> count_list (schedule ports) x" by (simp add: r)
qed

lemma in_schedule:
  "(i, j) \<in> set (schedule ports) \<longleftrightarrow>
     i < length ports \<and> j < length ports \<and> i \<noteq> j \<and> (get3 (ports ! i) \<or> i < j)"
  using count_schedule [of ports i j] count_list_0_iff [of "schedule ports" "(i, j)"]
  by (auto split: if_splits)

lemma port_pairs_general:
  "(\<forall>(i, j) \<in> set (fst (check_trace ports)). i \<noteq> j \<and> i < length ports \<and> j < length ports) \<and>
   (\<forall>i j. count_list (fst (check_trace ports)) (i, j) \<le> 1) \<and>
   (check_ports ports = Inr () \<longrightarrow>
      (\<forall>i j. i < j \<and> j < length ports \<longrightarrow>
         times_compared ports i j = (if get3 (ports ! j) then 2 else 1))) \<and>
   (\<forall>ports'. mset ports' = mset ports \<longrightarrow>
      (check_ports ports' = Inr ()) = (check_ports ports = Inr ()))"
proof (intro conjI)
  show "\<forall>(i, j) \<in> set (fst (check_trace ports)). i \<noteq> j \<and> i < length ports \<and> j < length ports"
    using check_trace_within_schedule(1) [of ports] in_schedule [of _ _ ports] by auto
  show "\<forall>i j. count_list (fst (check_trace ports)) (i, j) \<le> 1"
  proof (intro allI)
    fix i j
    have "count_list (schedule ports) (i, j) \<le> 1" by (simp add: count_schedule)
    with check_trace_within_schedule(2) [of ports "(i, j)"] show
      "count_list (fst (check_trace ports)) (i, j) \<le> 1" by simp
  qed
  show "check_ports ports = Inr () \<longrightarrow>
      (\<forall>i j. i < j \<and> j < length ports \<longrightarrow>
         times_compared ports i j = (if get3 (ports ! j) then 2 else 1))"
    by (auto simp: times_compared_def check_trace_pass count_schedule)
  show "\<forall>ports'. mset ports' = mset ports \<longrightarrow>
      (check_ports ports' = Inr ()) = (check_ports ports = Inr ())"
    using check_ports_permutation by blast
qed

text \<open>
  Claim C2, as amended. The check never compares an entry with itself, and it makes each
  comparison of an entry with another one at most once in each direction. When it
  returns normally it has compared every two entries: once if the later of the two sets
  no range, twice (once in each direction) if it does. Whether the check returns normally
  or throws does not depend on the order of the entries.
\<close>

theorem port_pairs_compared:
  "(\<forall>(i, j) \<in> set (fst (check_trace (enabled_ports p))).
      i \<noteq> j \<and> i < length (enabled_ports p) \<and> j < length (enabled_ports p)) \<and>
   (\<forall>i j. count_list (fst (check_trace (enabled_ports p))) (i, j) \<le> 1) \<and>
   (CheckPortCollision p = Inr () \<longrightarrow>
      (\<forall>i j. i < j \<and> j < length (enabled_ports p) \<longrightarrow>
         times_compared (enabled_ports p) i j = (if get3 (enabled_ports p ! j) then 2 else 1))) \<and>
   (\<forall>ports'. mset ports' = mset (enabled_ports p) \<longrightarrow>
      (check_ports ports' = Inr ()) = (CheckPortCollision p = Inr ()))"
  unfolding CheckPortCollision_def by (rule port_pairs_general)

theorem port_pairs_compared_witness:
  "CheckPortCollision (sagemaker_example 8000) = Inr () \<and>
   times_compared (enabled_ports (sagemaker_example 8000)) 0 1 = 1 \<and>
   times_compared (enabled_ports (sagemaker_example 8000)) 0 3 = 2 \<and>
   check_ports (rev (enabled_ports (sagemaker_example 8000))) = Inr ()"
proof -
  have ok: "CheckPortCollision (sagemaker_example 8000) = Inr ()"
    by (rule CheckPortCollision_examples(4))
  have len: "length (enabled_ports (sagemaker_example 8000)) = 4"
    and r3: "get3 (enabled_ports (sagemaker_example 8000) ! 3)"
    and r1: "\<not> get3 (enabled_ports (sagemaker_example 8000) ! 1)"
    by (simp_all add: port_defs)
  from port_pairs_compared [of "sagemaker_example 8000"] ok
  have t: "\<And>i j. i < j \<and> j < length (enabled_ports (sagemaker_example 8000)) \<Longrightarrow>
      times_compared (enabled_ports (sagemaker_example 8000)) i j =
        (if get3 (enabled_ports (sagemaker_example 8000) ! j) then 2 else 1)"
    and m: "\<And>ports'. mset ports' = mset (enabled_ports (sagemaker_example 8000)) \<Longrightarrow>
      (check_ports ports' = Inr ()) = (CheckPortCollision (sagemaker_example 8000) = Inr ())"
    by blast+
  from t [of 0 1] t [of 0 3] len r1 r3
  have "times_compared (enabled_ports (sagemaker_example 8000)) 0 1 = 1"
    "times_compared (enabled_ports (sagemaker_example 8000)) 0 3 = 2" by simp_all
  moreover from m [of "rev (enabled_ports (sagemaker_example 8000))"] ok
  have "check_ports (rev (enabled_ports (sagemaker_example 8000))) = Inr ()" by simp
  ultimately show ?thesis using ok by blast
qed

text \<open>
  Claim C2 as stated fails: in a check that returns normally, HTTP (position 0) and
  SageMaker (position 3, with a range) are compared twice, not once.
\<close>

theorem range_entry_compared_twice:
  "CheckPortCollision (sagemaker_example 8000) = Inr () \<and>
   fst (check_trace (enabled_ports (sagemaker_example 8000))) =
     [(0, 1), (0, 2), (0, 3), (1, 2), (1, 3), (2, 3), (3, 0), (3, 1), (3, 2)] \<and>
   times_compared (enabled_ports (sagemaker_example 8000)) 0 3 = 2"
  by (simp add: port_defs upt_rec)

text \<open>
  The exception that a failing check throws does depend on the order of the entries: the
  two entries of the counterexample to claim C1, in both orders.
\<close>

lemma check_ports_error_depends_on_order:
  "check_ports [(''HTTP'', ''0.0.0.0'', 8080, False, - 1, - 1),
                (''SageMaker'', ''0.0.0.0'', 8080, True, 8000, 8002)] =
     Inl (PortConflict ''HTTP'' ''SageMaker'' ''0.0.0.0'' 8080)"
  "check_ports [(''SageMaker'', ''0.0.0.0'', 8080, True, 8000, 8002),
                (''HTTP'', ''0.0.0.0'', 8080, False, - 1, - 1)] =
     Inl (PortRangeViolation ''HTTP'' 8080 8000 8002)"
  by (simp_all add: port_defs upt_rec)

subsection \<open>\<open>Parse\<close>: single options\<close>

lemma set_lparams_sel:
  "lparams (set_lparams f st) = f (lparams st)"
  "strict_model_config_present (set_lparams f st) = strict_model_config_present st"
  "disable_auto_complete_config (set_lparams f st) = disable_auto_complete_config st"
  "cache_size_present (set_lparams f st) = cache_size_present st"
  "cache_config_present (set_lparams f st) = cache_config_present st"
  "explicit_disable_trace (set_lparams f st) = explicit_disable_trace st"
  by (simp_all add: set_lparams_def)

text \<open>
  Claim C10. The \<open>case OPTION_GRPC_USE_SSL_MUTUAL\<close> branch, given an argument that
  parses to the boolean \<open>v\<close>, stores \<open>v\<close> in the mutual-authentication field and sets
  the use-SSL field to true whatever \<open>v\<close> and the earlier value of the field are.
\<close>

theorem grpc_use_ssl_mutual_sets_use_ssl:
  assumes "ParseOption_bool (optarg g) = Inr v"
  shows "switch_case stod OPTION_GRPC_USE_SSL_MUTUAL g st =
           Inr (set_ssl (\<lambda>s. s\<lparr>use_mutual_auth := v, use_ssl := True\<rparr>) st) \<and>
         use_mutual_auth (ssl (grpc_options (lparams
           (set_ssl (\<lambda>s. s\<lparr>use_mutual_auth := v, use_ssl := True\<rparr>) st)))) = v \<and>
         use_ssl (ssl (grpc_options (lparams
           (set_ssl (\<lambda>s. s\<lparr>use_mutual_auth := v, use_ssl := True\<rparr>) st)))) = True"
  using assms by (simp add: switch_case_def option_ids setter_defs)

theorem grpc_use_ssl_mutual_sets_use_ssl_witness:
  "ParseOption_bool (optarg \<lparr>optind = 3, optarg = ''false''\<rparr>) = Inr False \<and>
   switch_case example_stod OPTION_GRPC_USE_SSL_MUTUAL \<lparr>optind = 3, optarg = ''false''\<rparr>
       (initial_state example_lparams) =
     Inr (set_ssl (\<lambda>s. s\<lparr>use_mutual_auth := False, use_ssl := True\<rparr>) (initial_state example_lparams))"
proof -
  have h: "ParseOption_bool (optarg \<lparr>optind = 3, optarg = ''false''\<rparr>) = Inr False"
    by (simp add: bool_defs)
  from grpc_use_ssl_mutual_sets_use_ssl
         [OF h, where stod = example_stod and st = "initial_state example_lparams"] h
  show ?thesis by simp
qed

text \<open>
  The whole parse on the tokens \<open>--grpc-use-ssl=false --grpc-use-ssl-mutual=false\<close>:
  SSL ends up enabled, mutual authentication disabled.
\<close>

lemma Parse_ssl_mutual_false_example:
  "map_sum id (\<lambda>cfg. (use_ssl (ssl (grpc_options cfg)), use_mutual_auth (ssl (grpc_options cfg))))
     (Parse example_stod example_env example_lparams
        [''tritonserver'', ''--grpc-use-ssl=false'', ''--grpc-use-ssl-mutual=false'']) =
   Inr (True, False)"
  by (simp add: parse_defs scan_defs setter_defs example_defs str_defs num_defs bool_defs Let_def
      scan_options.simps)

subsection \<open>\<open>Parse\<close>: post parsing validation\<close>

lemma post_steps_flags:
  "cache_size_present (reset_poll_secs st) = cache_size_present st"
  "cache_config_present (reset_poll_secs st) = cache_config_present st"
  "cache_size_present (default_model_repository env st) = cache_size_present st"
  "cache_config_present (default_model_repository env st) = cache_config_present st"
  "cache_size_present (mask_metrics st) = cache_size_present st"
  "cache_config_present (mask_metrics st) = cache_config_present st"
  "cache_size_present (disable_trace st) = cache_size_present st"
  "cache_config_present (disable_trace st) = cache_config_present st"
  "cache_size_present (override_strict_model_config st) = cache_size_present st"
  "cache_config_present (override_strict_model_config st) = cache_config_present st"
  by (simp_all add: reset_poll_secs_def default_model_repository_def mask_metrics_def
      disable_trace_def override_strict_model_config_def set_lparams_sel Let_def)

lemma post_steps_poll:
  "control_mode (lparams (reset_poll_secs st)) = control_mode (lparams st)"
  "repository_poll_secs (lparams (reset_poll_secs st)) =
     (if control_mode (lparams st) = TRITONSERVER_MODEL_CONTROL_POLL
      then repository_poll_secs (lparams st) else 0)"
  "control_mode (lparams (default_model_repository env st)) = control_mode (lparams st)"
  "repository_poll_secs (lparams (default_model_repository env st)) = repository_poll_secs (lparams st)"
  "control_mode (lparams (mask_metrics st)) = control_mode (lparams st)"
  "repository_poll_secs (lparams (mask_metrics st)) = repository_poll_secs (lparams st)"
  "control_mode (lparams (disable_trace st)) = control_mode (lparams st)"
  "repository_poll_secs (lparams (disable_trace st)) = repository_poll_secs (lparams st)"
  "control_mode (lparams (override_strict_model_config st)) = control_mode (lparams st)"
  "repository_poll_secs (lparams (override_strict_model_config st)) = repository_poll_secs (lparams st)"
  by (simp_all add: reset_poll_secs_def default_model_repository_def mask_metrics_def
      disable_trace_def override_strict_model_config_def set_lparams_sel Let_def)

lemma post_parsing_Inr:
  "post_parsing env st = Inr cfg \<longleftrightarrow>
     \<not> (cache_size_present st \<and> cache_config_present st) \<and>
     cfg = (lparams (override_strict_model_config
                  (disable_trace (mask_metrics (default_model_repository env (reset_poll_secs st))))))
             \<lparr>enable_cache := (cache_size_present st \<or> cache_config_present st)\<rparr>"
  by (auto simp add: post_parsing_def Let_def post_steps_flags)

lemma post_parsing_poll:
  "post_parsing env st = Inr cfg \<Longrightarrow>
     control_mode cfg = control_mode (lparams st) \<and>
     repository_poll_secs cfg =
       (if control_mode (lparams st) = TRITONSERVER_MODEL_CONTROL_POLL
        then repository_poll_secs (lparams st) else 0)"
  by (simp add: post_parsing_Inr post_steps_poll)

lemma Parse_Inr_iff:
  "Parse stod env lparams0 argv = Inr cfg \<longleftrightarrow>
     (\<exists>st0 g st. before_parsing env (initial_state lparams0) = Inr st0 \<and>
        scan_options stod argv \<lparr>optind = 1, optarg = []\<rparr> st0 = Inr (g, st) \<and>
        length argv \<le> optind g \<and> post_parsing env st = Inr cfg)"
  apply (simp add: Parse_def bindE_Inr_iff split_beta not_less cong: conj_cong)
  apply blast
  done

text \<open>
  Claim C7. For every token list on which \<open>Parse\<close> returns a configuration: if its
  control mode is not "poll", its poll interval is zero, whatever the loop had stored;
  and the control mode and, in "poll" mode, the poll interval are those of the state
  \<open>st\<close> in which the loop over the tokens ended.
\<close>

theorem poll_interval_zero_unless_poll:
  assumes "Parse stod env lparams0 argv = Inr cfg"
  shows "(control_mode cfg \<noteq> TRITONSERVER_MODEL_CONTROL_POLL \<longrightarrow> repository_poll_secs cfg = 0) \<and>
         (\<exists>st0 g st. before_parsing env (initial_state lparams0) = Inr st0 \<and>
            scan_options stod argv \<lparr>optind = 1, optarg = []\<rparr> st0 = Inr (g, st) \<and>
            control_mode cfg = control_mode (lparams st) \<and>
            (control_mode cfg = TRITONSERVER_MODEL_CONTROL_POLL \<longrightarrow>
               repository_poll_secs cfg = repository_poll_secs (lparams st)))"
proof -
  from assms obtain st0 g st where
    a: "before_parsing env (initial_state lparams0) = Inr st0" and
    b: "scan_options stod argv \<lparr>optind = 1, optarg = []\<rparr> st0 = Inr (g, st)" and
    c: "post_parsing env st = Inr cfg"
    by (auto simp: Parse_Inr_iff)
  from post_parsing_poll [OF c] a b show ?thesis by auto
qed

text \<open>
  Two runs: a poll interval of 30 given without "poll" mode is replaced by 0; given
  together with \<open>--model-control-mode=poll\<close> it is kept.
\<close>

lemma Parse_poll_secs_without_poll_mode:
  "map_sum id (\<lambda>cfg. (control_mode cfg, repository_poll_secs cfg))
     (Parse example_stod example_env example_lparams
        [''tritonserver'', ''--repository-poll-secs=30'']) =
   Inr (TRITONSERVER_MODEL_CONTROL_NONE, 0)"
  by (simp add: parse_defs scan_defs setter_defs example_defs str_defs num_defs Let_def
      scan_options.simps)

lemma Parse_poll_secs_with_poll_mode:
  "map_sum id (\<lambda>cfg. (control_mode cfg, repository_poll_secs cfg))
     (Parse example_stod example_env example_lparams
        [''tritonserver'', ''--model-control-mode'', ''poll'', ''--repository-poll-secs=30'']) =
   Inr (TRITONSERVER_MODEL_CONTROL_POLL, 30)"
  by (simp add: parse_defs scan_defs setter_defs example_defs str_defs num_defs bool_defs Let_def
      scan_options.simps)

theorem poll_interval_zero_unless_poll_witness:
  "\<exists>cfg. Parse example_stod example_env example_lparams
            [''tritonserver'', ''--repository-poll-secs=30''] = Inr cfg \<and>
         control_mode cfg \<noteq> TRITONSERVER_MODEL_CONTROL_POLL \<and> repository_poll_secs cfg = 0"
proof -
  from Parse_poll_secs_without_poll_mode obtain cfg where
    p: "Parse example_stod example_env example_lparams
          [''tritonserver'', ''--repository-poll-secs=30''] = Inr cfg" and
    m: "control_mode cfg = TRITONSERVER_MODEL_CONTROL_NONE"
    by (auto simp: map_sum_def split: sum.splits)
  from poll_interval_zero_unless_poll [OF p] m p show ?thesis by auto
qed

subsection \<open>\<open>Parse\<close>: the loop over the tokens\<close>

lemma setters_sel:
  "cache_size_present (set_lgrpc_options f st) = cache_size_present st"
  "cache_config_present (set_lgrpc_options f st) = cache_config_present st"
  "cuda_pools (lparams (set_lgrpc_options f st)) = cuda_pools (lparams st)"
  "cache_size_present (set_socket f1 st) = cache_size_present st"
  "cache_config_present (set_socket f1 st) = cache_config_present st"
  "cuda_pools (lparams (set_socket f1 st)) = cuda_pools (lparams st)"
  "cache_size_present (set_ssl f2 st) = cache_size_present st"
  "cache_config_present (set_ssl f2 st) = cache_config_present st"
  "cuda_pools (lparams (set_ssl f2 st)) = cuda_pools (lparams st)"
  "cache_size_present (set_keep_alive f3 st) = cache_size_present st"
  "cache_config_present (set_keep_alive f3 st) = cache_config_present st"
  "cuda_pools (lparams (set_keep_alive f3 st)) = cuda_pools (lparams st)"
  by (simp_all add: setter_defs)

lemma switch_case_cache_flags:
  assumes "switch_case stod flag g st = Inr st'"
  shows "cache_size_present st' = (cache_size_present st \<or> flag = OPTION_RESPONSE_CACHE_BYTE_SIZE)"
    and "cache_config_present st' = (cache_config_present st \<or> flag = OPTION_CACHE_CONFIG)"
  using assms unfolding switch_case_def
  by (auto simp: bindE_Inr_iff set_lparams_sel setters_sel Let_def option_ids
      split: if_splits sum.splits)



lemma scan_fail:
  assumes "getopt_long argv recognized_options g = Inl e"
  shows "scan_options stod argv g st = Inl e" "option_events argv g = []"
  using assms
  by (simp_all add: scan_options.simps [of stod argv g st] option_events.simps [of argv g])

lemma scan_stop:
  assumes "getopt_long argv recognized_options g = Inr (- 1, g1)"
  shows "scan_options stod argv g st = Inr (g1, st)" "option_events argv g = []"
  using assms
  by (simp_all add: scan_options.simps [of stod argv g st] option_events.simps [of argv g])

lemma scan_step:
  assumes "getopt_long argv recognized_options g = Inr (flag, g1)" "flag \<noteq> - 1"
  shows "scan_options stod argv g st =
           bindE (switch_case stod flag g1 st) (\<lambda>st1. scan_options stod argv g1 st1)"
    and "option_events argv g = (flag, optarg g1) # option_events argv g1"
  using assms
  by (simp_all add: scan_options.simps [of stod argv g st] option_events.simps [of argv g]
      bindE_def)

lemma scan_options_step:
  assumes "scan_options stod argv g st = Inr (g', st')"
  obtains (stop) "getopt_long argv recognized_options g = Inr (- 1, g')"
      "st' = st" "option_events argv g = []"
  | (step) flag g1 st1 where "getopt_long argv recognized_options g = Inr (flag, g1)"
      "flag \<noteq> - 1" "switch_case stod flag g1 st = Inr st1"
      "scan_options stod argv g1 st1 = Inr (g', st')"
      "option_events argv g = (flag, optarg g1) # option_events argv g1"
proof (cases "getopt_long argv recognized_options g")
  case (Inl e)
  from scan_fail(1) [OF Inl, of stod st] assms show ?thesis by simp
next
  case (Inr x)
  obtain flag g1 where x: "x = (flag, g1)" by (cases x)
  show ?thesis
  proof (cases "flag = - 1")
    case True
    with Inr x have go: "getopt_long argv recognized_options g = Inr (- 1, g1)" by simp
    from scan_stop(1) [OF go, of stod st] assms have "g' = g1" "st' = st" by simp_all
    with go scan_stop(2) [OF go] show ?thesis by (intro stop) simp_all
  next
    case False
    from Inr x have go: "getopt_long argv recognized_options g = Inr (flag, g1)" by simp
    have "bindE (switch_case stod flag g1 st) (\<lambda>st1. scan_options stod argv g1 st1) =
            Inr (g', st')"
      using scan_step(1) [OF go False, of stod st] assms by simp
    then obtain st1 where "switch_case stod flag g1 st = Inr st1"
      "scan_options stod argv g1 st1 = Inr (g', st')"
      unfolding bindE_Inr_iff by blast
    with go False scan_step(2) [OF go False] show ?thesis by (intro step)
  qed
qed


lemma scan_options_cache_flags:
  "scan_options stod argv g st = Inr (g', st') \<Longrightarrow>
     cache_size_present st' =
       (cache_size_present st \<or> OPTION_RESPONSE_CACHE_BYTE_SIZE \<in> fst ` set (option_events argv g)) \<and>
     cache_config_present st' =
       (cache_config_present st \<or> OPTION_CACHE_CONFIG \<in> fst ` set (option_events argv g))"
proof (induction stod argv g st rule: scan_options.induct)
  case (1 stod argv g st)
  from "1.prems" show ?case
  proof (cases rule: scan_options_step)
    case stop
    then show ?thesis by simp
  next
    case (step flag g1 st1)
    from "1.IH" [OF step(1) refl step(2) step(3) step(4)] switch_case_cache_flags [OF step(3)] step(5)
    show ?thesis by auto
  qed
qed

lemma before_parsing_Inr:
  assumes "before_parsing env (initial_state lparams0) = Inr st0"
  shows "\<not> cache_size_present st0" "\<not> cache_config_present st0"
    "cuda_pools (lparams st0) = cuda_pools lparams0"
  using assms
  by (auto simp: before_parsing_def initial_state_def Let_def bindE_Inr_iff set_lparams_sel
      split: if_splits)






lemma Parse_after_scan:
  assumes "before_parsing env (initial_state lparams0) = Inr st0"
    and "scan_options stod argv \<lparr>optind = 1, optarg = []\<rparr> st0 = Inr (g, st)"
    and "length argv \<le> optind g"
  shows "Parse stod env lparams0 argv = post_parsing env st"
  using assms by (simp add: Parse_def)

lemma Parse_two_cache_flags_fails:
  assumes "flag_given OPTION_RESPONSE_CACHE_BYTE_SIZE argv" "flag_given OPTION_CACHE_CONFIG argv"
  shows "Parse stod env lparams0 argv \<noteq> Inr cfg"
proof
  assume "Parse stod env lparams0 argv = Inr cfg"
  then obtain st0 g st where
    a: "before_parsing env (initial_state lparams0) = Inr st0" and
    b: "scan_options stod argv \<lparr>optind = 1, optarg = []\<rparr> st0 = Inr (g, st)" and
    c: "post_parsing env st = Inr cfg"
    by (auto simp: Parse_Inr_iff)
  from scan_options_cache_flags [OF b] assms
  have "cache_size_present st \<and> cache_config_present st" by (simp add: flag_given_def)
  with c show False by (simp add: post_parsing_Inr)
qed

text \<open>
  Claim C8. If both the cache-size flag and the cache-config flag are given, the parse
  fails, and when the scan of the token list completes the failure is the conflict of the
  two flags, which names both; if the scan completes and exactly one of the two flags is
  given, the parse returns a configuration with the cache enabled.
\<close>

theorem cache_flags_mutually_exclusive:
  "(flag_given OPTION_RESPONSE_CACHE_BYTE_SIZE argv \<and> flag_given OPTION_CACHE_CONFIG argv \<longrightarrow>
      (\<exists>e. Parse stod env lparams0 argv = Inl e) \<and>
      (scan_completes stod env lparams0 argv \<longrightarrow>
         Parse stod env lparams0 argv =
           Inl (ConflictingOptions ''--response-cache-byte-size'' ''--cache-config''))) \<and>
   (scan_completes stod env lparams0 argv \<and>
    flag_given OPTION_RESPONSE_CACHE_BYTE_SIZE argv \<noteq> flag_given OPTION_CACHE_CONFIG argv \<longrightarrow>
      (\<exists>cfg. Parse stod env lparams0 argv = Inr cfg \<and> enable_cache cfg))"
proof (intro conjI impI)
  assume both: "flag_given OPTION_RESPONSE_CACHE_BYTE_SIZE argv \<and> flag_given OPTION_CACHE_CONFIG argv"
  show "\<exists>e. Parse stod env lparams0 argv = Inl e"
    using Parse_two_cache_flags_fails [of argv stod env lparams0] both
    by (cases "Parse stod env lparams0 argv") auto
next
  assume both: "flag_given OPTION_RESPONSE_CACHE_BYTE_SIZE argv \<and> flag_given OPTION_CACHE_CONFIG argv"
    and sc: "scan_completes stod env lparams0 argv"
  from sc obtain st0 g st where
    a: "before_parsing env (initial_state lparams0) = Inr st0" and
    b: "scan_options stod argv \<lparr>optind = 1, optarg = []\<rparr> st0 = Inr (g, st)" and
    l: "length argv \<le> optind g"
    by (auto simp: scan_completes_def split: sum.splits)
  from scan_options_cache_flags [OF b] both
  have "cache_size_present st \<and> cache_config_present st" by (simp add: flag_given_def)
  then have "post_parsing env st = Inl (ConflictingOptions ''--response-cache-byte-size'' ''--cache-config'')"
    by (simp add: post_parsing_def Let_def post_steps_flags)
  with Parse_after_scan [OF a b l]
  show "Parse stod env lparams0 argv =
          Inl (ConflictingOptions ''--response-cache-byte-size'' ''--cache-config'')"
    by simp
next
  assume h: "scan_completes stod env lparams0 argv \<and>
    flag_given OPTION_RESPONSE_CACHE_BYTE_SIZE argv \<noteq> flag_given OPTION_CACHE_CONFIG argv"
  then obtain st0 g st where
    a: "before_parsing env (initial_state lparams0) = Inr st0" and
    b: "scan_options stod argv \<lparr>optind = 1, optarg = []\<rparr> st0 = Inr (g, st)" and
    l: "length argv \<le> optind g"
    by (auto simp: scan_completes_def split: sum.splits)
  from scan_options_cache_flags [OF b] before_parsing_Inr(1,2) [OF a] h
  have x: "cache_size_present st \<noteq> cache_config_present st" by (simp add: flag_given_def)
  then have one: "cache_size_present st \<or> cache_config_present st"
    and notboth: "\<not> (cache_size_present st \<and> cache_config_present st)" by auto
  obtain cfg where cfg: "post_parsing env st = Inr cfg" "enable_cache cfg"
    using one notboth by (simp add: post_parsing_Inr)
  with Parse_after_scan [OF a b l]
  show "\<exists>cfg. Parse stod env lparams0 argv = Inr cfg \<and> enable_cache cfg" by auto
qed

lemma both_cache_flags_example:
  "flag_given OPTION_RESPONSE_CACHE_BYTE_SIZE
     [''tritonserver'', ''--response-cache-byte-size=100'', ''--cache-config'', ''local,size=1'']"
  "flag_given OPTION_CACHE_CONFIG
     [''tritonserver'', ''--response-cache-byte-size=100'', ''--cache-config'', ''local,size=1'']"
  "scan_completes example_stod example_env example_lparams
     [''tritonserver'', ''--response-cache-byte-size=100'', ''--cache-config'', ''local,size=1'']"
  by (simp_all add: flag_given_def scan_completes_def before_parsing_def initial_state_def
      GetEnvironmentVariableOrDefault_def scan_defs setter_defs example_defs str_defs num_defs
      Let_def scan_options.simps option_events.simps ParseCacheConfigOption_def)

lemma one_cache_flag_example:
  "\<not> flag_given OPTION_RESPONSE_CACHE_BYTE_SIZE [''tritonserver'', ''--cache-config=local,size=1'']"
  "flag_given OPTION_CACHE_CONFIG [''tritonserver'', ''--cache-config=local,size=1'']"
  "scan_completes example_stod example_env example_lparams
     [''tritonserver'', ''--cache-config=local,size=1'']"
  by (simp_all add: flag_given_def scan_completes_def before_parsing_def initial_state_def
      GetEnvironmentVariableOrDefault_def scan_defs setter_defs example_defs str_defs num_defs
      Let_def scan_options.simps option_events.simps ParseCacheConfigOption_def)

theorem cache_flags_mutually_exclusive_witness:
  "Parse example_stod example_env example_lparams
     [''tritonserver'', ''--response-cache-byte-size=100'', ''--cache-config'', ''local,size=1''] =
     Inl (ConflictingOptions ''--response-cache-byte-size'' ''--cache-config'') \<and>
   (\<exists>cfg. Parse example_stod example_env example_lparams
            [''tritonserver'', ''--cache-config=local,size=1''] = Inr cfg \<and> enable_cache cfg)"
  using both_cache_flags_example one_cache_flag_example
    cache_flags_mutually_exclusive
      [of "[''tritonserver'', ''--response-cache-byte-size=100'', ''--cache-config'', ''local,size=1'']"
          example_stod example_env example_lparams]
    cache_flags_mutually_exclusive
      [of "[''tritonserver'', ''--cache-config=local,size=1'']"
          example_stod example_env example_lparams]
  by blast

subsection \<open>\<open>Parse\<close> followed by the port collision check\<close>

text \<open>
  The parameter sets of the port examples are what the parser produces: the port entries
  of the configuration parsed from the tokens are those of \<open>sagemaker_example\<close>, and
  the check on the parsed configuration gives the results shown above.
\<close>

lemma Parse_sagemaker_example_ports:
  "map_sum id enabled_ports
     (Parse example_stod example_env example_lparams
        [''tritonserver'', ''--allow-sagemaker=true'', ''--sagemaker-safe-port-range=8000-8002'',
         ''--http-port=8080'']) =
   Inr (enabled_ports (sagemaker_example 8080))"
  by (simp add: parse_defs scan_defs setter_defs example_defs str_defs num_defs bool_defs Let_def
      scan_options.simps ParsePairOption_def enabled_ports_def sagemaker_example_def)

lemma Parse_then_check_examples:
  "bindE (Parse example_stod example_env example_lparams
            [''tritonserver'', ''--allow-sagemaker=true'',
             ''--sagemaker-safe-port-range=8000-8002'', ''--http-port=8080''])
     CheckPortCollision =
   Inl (PortConflict ''HTTP'' ''SageMaker'' ''0.0.0.0'' 8080)"
  "bindE (Parse example_stod example_env example_lparams
            [''tritonserver'', ''--allow-sagemaker=true'',
             ''--sagemaker-safe-port-range=8000-8002'', ''--http-port=8005''])
     CheckPortCollision =
   Inl (PortRangeViolation ''HTTP'' 8005 8000 8002)"
  "bindE (Parse example_stod example_env example_lparams
            [''tritonserver'', ''--allow-sagemaker=true'',
             ''--sagemaker-safe-port-range=8000-8002''])
     CheckPortCollision =
   Inr ()"
  "bindE (Parse example_stod example_env example_lparams
            [''tritonserver'', ''--http-port=8000'', ''--grpc-port=8000''])
     CheckPortCollision =
   Inl (PortConflict ''HTTP'' ''GRPC'' ''0.0.0.0'' 8000)"
  by (simp_all add: parse_defs scan_defs setter_defs example_defs str_defs num_defs bool_defs
      Let_def scan_options.simps ParsePairOption_def port_defs upt_rec)

end
